theory Spec2Isabelle
  imports Complex_Main "HOL-Library.Sublist"
begin

section \<open>days-in-office: the record normalisation and matching pipeline of main.go\<close>

text \<open>
  The development embeds \<^verbatim>\<open>src/main.go\<close>: the point parser \<^verbatim>\<open>parsePoint\<close>, the schema
  normaliser \<^verbatim>\<open>ParseTimelineInput\<close>, the day set \<^verbatim>\<open>dayMap\<close> with \<^verbatim>\<open>Add\<close> and
  \<^verbatim>\<open>CountWorkingDays\<close>, the per-file pipeline \<^verbatim>\<open>processFile\<close> and the loop of
  \<^verbatim>\<open>main\<close> over the input files.

  Conventions. A Go \<^verbatim>\<open>string\<close> is a byte sequence, here a \<open>char list\<close> (a \<open>char\<close> is a
  byte). A Go \<^verbatim>\<open>error\<close> is represented by its message. A \<^verbatim>\<open>float64\<close> is represented by the
  real number it denotes: rounding, infinities and NaN are outside the model. Go's \<^verbatim>\<open>int\<close>
  is \<open>int\<close>; the program only reads such values and converts them to \<^verbatim>\<open>float64\<close>, it never
  does integer arithmetic on them. A run-time panic and an error return are values of the
  type \<open>failure\<close>.
\<close>

subsection \<open>Errors, panics, numbers\<close>

type_synonym error = string

type_synonym float64 = real

datatype failure =
    IndexOutOfRange nat nat  \<comment> \<open>run-time panic: index \<open>i\<close> read from a slice of length \<open>n\<close>\<close>
  | DecodingJSON error       \<comment> \<open>the error \<^verbatim>\<open>fmt.Errorf("decoding JSON: %w", err)\<close>\<close>

subsection \<open>\<^verbatim>\<open>time.Time\<close>\<close>

text \<open>
  A \<^verbatim>\<open>time.Time\<close> is an instant together with a location. The model keeps the instant, in
  nanoseconds since the Unix epoch, and the offset east of UTC, in seconds, that the value's
  location has at that instant. A timestamp decoded from JSON (RFC 3339) carries the offset
  written in its text: \<^verbatim>\<open>Z\<close> is offset 0, \<^verbatim>\<open>+01:00\<close> is offset 3600.
\<close>

record Time =
  instant :: int
  zone :: int

definition Before :: "Time \<Rightarrow> Time \<Rightarrow> bool" where
  "Before t u = (instant t < instant u)"

definition After :: "Time \<Rightarrow> Time \<Rightarrow> bool" where
  "After t u = (instant t > instant u)"

datatype weekday = Sunday | Monday | Tuesday | Wednesday | Thursday | Friday | Saturday

text \<open>The day number (days since 1970-01-01) of the wall clock the value shows in its own location.\<close>

definition localDay :: "Time \<Rightarrow> int" where
  "localDay t = (instant t div 1000000000 + zone t) div 86400"

text \<open>
  The proleptic Gregorian date of a day number, as \<open>(year, month, day)\<close>. The year is cut
  into 400-year, 100-year, 4-year and 1-year cycles counted from 1 March of year 0, so that a
  leap day is the last day of its cycle.
\<close>

definition civil :: "int \<Rightarrow> int \<times> int \<times> int" where
  "civil n =
     (let z = n + 719468;
          era = z div 146097;
          doe = z mod 146097;
          c = min 3 (doe div 36524);
          d1 = doe - 36524 * c;
          q = d1 div 1461;
          d2 = d1 - 1461 * q;
          a = min 3 (d2 div 365);
          doy = d2 - 365 * a;
          mp = (5 * doy + 2) div 153;
          d = doy - (153 * mp + 2) div 5 + 1;
          m = (if mp < 10 then mp + 3 else mp - 9);
          y = 400 * era + 100 * c + 4 * q + a + (if m \<le> 2 then 1 else 0)
      in (y, m, d))"

text \<open>\<^verbatim>\<open>t.Weekday()\<close>: 1970-01-01 was a Thursday.\<close>

definition weekdayOfDay :: "int \<Rightarrow> weekday" where
  "weekdayOfDay n =
     (let w = (n + 4) mod 7 in
      if w = 0 then Sunday else if w = 1 then Monday else if w = 2 then Tuesday
      else if w = 3 then Wednesday else if w = 4 then Thursday
      else if w = 5 then Friday else Saturday)"

definition Weekday :: "Time \<Rightarrow> weekday" where
  "Weekday t = weekdayOfDay (localDay t)"

text \<open>
  \<^verbatim>\<open>appendInt\<close> of package time: the decimal digits of \<open>x\<close>, padded with zeros on the left to
  \<open>width\<close> digits, after a minus sign when \<open>x\<close> is negative.
\<close>

fun digits :: "nat \<Rightarrow> string" where
  "digits n = (if n < 10 then [char_of (48 + n)] else digits (n div 10) @ [char_of (48 + n mod 10)])"

declare digits.simps [simp del]

definition appendInt :: "int \<Rightarrow> nat \<Rightarrow> string" where
  "appendInt x width =
     (let ds = digits (nat \<bar>x\<bar>);
          padded = replicate (width - length ds) (CHR ''0'') @ ds
      in if x < 0 then CHR ''-'' # padded else padded)"

text \<open>\<^verbatim>\<open>t.Format("2006-01-02")\<close>: the only layout the program uses.\<close>

definition formatDate :: "int \<times> int \<times> int \<Rightarrow> string" where
  "formatDate ymd =
     (case ymd of (y, m, d) \<Rightarrow> appendInt y 4 @ ''-'' @ appendInt m 2 @ ''-'' @ appendInt d 2)"

definition Format :: "Time \<Rightarrow> string" where
  "Format t = formatDate (civil (localDay t))"

subsection \<open>The day set\<close>

text \<open>\<^verbatim>\<open>type dayMap map[string]bool\<close>: a stringified date to whether it was a working day.\<close>

type_synonym dayMap = "string \<rightharpoonup> bool"

definition Add :: "Time \<Rightarrow> dayMap \<Rightarrow> dayMap" where
  "Add t d = d(Format t \<mapsto> (Weekday t \<noteq> Saturday \<and> Weekday t \<noteq> Sunday))"

text \<open>\<^verbatim>\<open>len(daysInTheOffice)\<close>\<close>

definition len :: "dayMap \<Rightarrow> nat" where
  "len d = card (dom d)"

definition CountWorkingDays :: "dayMap \<Rightarrow> nat" where
  "CountWorkingDays d = card {date. d date = Some True}"

subsection \<open>The point parser\<close>

text \<open>
  \<^verbatim>\<open>strings.ReplaceAll(s, old, new)\<close> and \<^verbatim>\<open>strings.Split(s, sep)\<close> for a non-empty \<open>old\<close>
  and \<open>sep\<close> (the program passes the degree sign and \<^verbatim>\<open>", "\<close>): the occurrences are found
  from the left and do not overlap.
\<close>

function ReplaceAll :: "string \<Rightarrow> string \<Rightarrow> string \<Rightarrow> string" where
  "ReplaceAll [] old new = []"
| "ReplaceAll (c # cs) old new =
     (if old \<noteq> [] \<and> prefix old (c # cs)
      then new @ ReplaceAll (drop (length old) (c # cs)) old new
      else c # ReplaceAll cs old new)"
  by pat_completeness auto
termination
  by (relation "measure (\<lambda>(s, old, new). length s)") auto

function splitFrom :: "string \<Rightarrow> string \<Rightarrow> string \<Rightarrow> string list" where
  "splitFrom sep cur [] = [cur]"
| "splitFrom sep cur (c # cs) =
     (if sep \<noteq> [] \<and> prefix sep (c # cs)
      then cur # splitFrom sep [] (drop (length sep) (c # cs))
      else splitFrom sep (cur @ [c]) cs)"
  by pat_completeness auto
termination
  by (relation "measure (\<lambda>(sep, cur, s). length s)") auto

definition Split :: "string \<Rightarrow> string \<Rightarrow> string list" where
  "Split s sep = splitFrom sep [] s"

text \<open>The degree sign U+00B0 in UTF-8.\<close>

definition degreeSign :: string where
  "degreeSign = [CHR 0xC2, CHR 0xB0]"

text \<open>
  \<^verbatim>\<open>parsePoint\<close>. \<^verbatim>\<open>strconv.ParseFloat\<close> is a parameter: it returns a value and an error,
  and \<^verbatim>\<open>parsePoint\<close> drops the error. Reading \<^verbatim>\<open>coords[1]\<close> from a slice of one element
  panics.
\<close>

definition parsePoint ::
  "(string \<Rightarrow> float64 \<times> error option) \<Rightarrow> string \<Rightarrow> failure + float64 \<times> float64" where
  "parsePoint ParseFloat val =
     (let coords = Split (ReplaceAll val degreeSign []) '', '' in
      case coords of
        [] \<Rightarrow> Inl (IndexOutOfRange 0 0)
      | [c0] \<Rightarrow> Inl (IndexOutOfRange 1 1)
      | c0 # c1 # _ \<Rightarrow> Inr (fst (ParseFloat c0), fst (ParseFloat c1)))"

text \<open>
  An executable decimal reader, used to run examples: an optional sign, digits, and an
  optional fraction after a point; anything else is a syntax error with value 0, as
  \<^verbatim>\<open>strconv.ParseFloat\<close> documents.
\<close>

definition isDigit :: "char \<Rightarrow> bool" where
  "isDigit c = (48 \<le> (of_char c :: nat) \<and> (of_char c :: nat) \<le> 57)"

definition digitsValue :: "string \<Rightarrow> nat" where
  "digitsValue s = foldl (\<lambda>acc c. 10 * acc + (of_char c - 48)) 0 s"

definition decimalParseFloat :: "string \<Rightarrow> float64 \<times> error option" where
  "decimalParseFloat s =
     (let neg = (s \<noteq> [] \<and> hd s = CHR ''-'');
          body = (if s \<noteq> [] \<and> (hd s = CHR ''-'' \<or> hd s = CHR ''+'') then tl s else s);
          ip = takeWhile isDigit body;
          rest = dropWhile isDigit body;
          fp = (if rest \<noteq> [] \<and> hd rest = CHR ''.'' then tl rest else []);
          ok = ((ip \<noteq> [] \<or> fp \<noteq> []) \<and> list_all isDigit fp
                \<and> (rest = [] \<or> hd rest = CHR ''.''));
          magnitude = real (digitsValue ip) + real (digitsValue fp) / 10 ^ length fp
      in if ok then (if neg then - magnitude else magnitude, None)
         else (0, Some ''invalid syntax''))"

text \<open>
  Whether \<open>substr\<close> occurs in \<open>s\<close>, as \<^verbatim>\<open>strings.Contains\<close> tells it. The program does not
  call it; it is used to say on which texts \<^verbatim>\<open>parsePoint\<close> returns.
\<close>

fun Contains :: "string \<Rightarrow> string \<Rightarrow> bool" where
  "Contains [] substr = (substr = [])"
| "Contains (c # cs) substr = (prefix substr (c # cs) \<or> Contains cs substr)"

subsection \<open>The schema normaliser\<close>

record timelinePoint =
  Latitude :: float64
  Longitude :: float64
  Start :: Time
  End :: Time

text \<open>
  \<^verbatim>\<open>timelineVisitedPlace\<close>; the fields of its nested structs \<^verbatim>\<open>Location\<close> and \<^verbatim>\<open>Duration\<close>
  carry the struct's name as a prefix. The JSON decoder leaves a field whose key is absent
  (or \<^verbatim>\<open>null\<close>) at its zero value, so an absent \<^verbatim>\<open>centerLatE7\<close> is a \<open>CenterLatE7\<close> of 0.
\<close>

record timelineVisitedPlace =
  Location_LatitudeE7 :: int
  Location_LongitudeE7 :: int
  Location_Address :: string
  Location_Name :: string
  Duration_Start :: Time
  Duration_End :: Time
  VisitConfidence :: int
  CenterLatE7 :: int
  CenterLngE7 :: int

record pathPoint =
  Point :: string
  Time :: Time

record semanticSegment =
  StartTime :: Time
  EndTime :: Time
  TimelinePath :: "pathPoint list"

text \<open>An element of \<^verbatim>\<open>TimelineObjects\<close>: the pointer \<^verbatim>\<open>PlaceVisit\<close> is \<open>None\<close> when nil.\<close>

record timelineObject =
  PlaceVisit :: "timelineVisitedPlace option"

text \<open>
  The local type \<^verbatim>\<open>wrapper\<close>. The slice \<^verbatim>\<open>SemanticSegments\<close> is \<open>None\<close> when nil (the key is
  absent or \<^verbatim>\<open>null\<close>) and \<open>Some []\<close> when the key holds the empty array; the program does not
  tell a nil \<^verbatim>\<open>TimelineObjects\<close> from an empty one.
\<close>

record wrapper =
  TimelineObjects :: "timelineObject list"
  SemanticSegments :: "semanticSegment list option"

text \<open>What \<^verbatim>\<open>json.NewDecoder(input).Decode(&w)\<close> gave: an error, or the wrapper it filled.\<close>

type_synonym decoded = "error + wrapper"

text \<open>The inner loop of the first branch: over the path points of one segment.\<close>

fun appendPath ::
  "(string \<Rightarrow> float64 \<times> error option) \<Rightarrow> semanticSegment \<Rightarrow> pathPoint list \<Rightarrow>
   timelinePoint list \<Rightarrow> failure + timelinePoint list" where
  "appendPath ParseFloat entry [] result = Inr result"
| "appendPath ParseFloat entry (point # rest) result =
     (case parsePoint ParseFloat (Point point) of
        Inl panic \<Rightarrow> Inl panic
      | Inr (lat, long) \<Rightarrow>
          appendPath ParseFloat entry rest
            (result @ [\<lparr>Latitude = lat, Longitude = long,
                         Start = StartTime entry, End = EndTime entry\<rparr>]))"

text \<open>The outer loop of the first branch: over the segments.\<close>

fun appendSegments ::
  "(string \<Rightarrow> float64 \<times> error option) \<Rightarrow> semanticSegment list \<Rightarrow>
   timelinePoint list \<Rightarrow> failure + timelinePoint list" where
  "appendSegments ParseFloat [] result = Inr result"
| "appendSegments ParseFloat (entry # rest) result =
     (case appendPath ParseFloat entry (TimelinePath entry) result of
        Inl panic \<Rightarrow> Inl panic
      | Inr result' \<Rightarrow> appendSegments ParseFloat rest result')"

text \<open>The body of the second loop for an entry whose \<^verbatim>\<open>PlaceVisit\<close> is not nil.\<close>

definition visitPoint :: "timelineVisitedPlace \<Rightarrow> timelinePoint" where
  "visitPoint pv =
     (let place =
            (if CenterLatE7 pv = 0 \<or> CenterLngE7 pv = 0
             then pv\<lparr>CenterLatE7 := Location_LatitudeE7 pv,
                     CenterLngE7 := Location_LongitudeE7 pv\<rparr>
             else pv)
      in \<lparr>Latitude = real_of_int (CenterLatE7 place) / 10000000,
          Longitude = real_of_int (CenterLngE7 place) / 10000000,
          Start = Duration_Start place,
          End = Duration_End place\<rparr>)"

text \<open>The second loop: over \<^verbatim>\<open>w.TimelineObjects\<close>.\<close>

fun appendVisits :: "timelineObject list \<Rightarrow> timelinePoint list \<Rightarrow> timelinePoint list" where
  "appendVisits [] result = result"
| "appendVisits (entry # rest) result =
     (case PlaceVisit entry of
        None \<Rightarrow> appendVisits rest result
      | Some pv \<Rightarrow> appendVisits rest (result @ [visitPoint pv]))"

definition ParseTimelineInput ::
  "(string \<Rightarrow> float64 \<times> error option) \<Rightarrow> decoded \<Rightarrow> failure + timelinePoint list" where
  "ParseTimelineInput ParseFloat input =
     (case input of
        Inl err \<Rightarrow> Inl (DecodingJSON err)
      | Inr w \<Rightarrow>
          (case SemanticSegments w of
             Some segments \<Rightarrow> appendSegments ParseFloat segments []
           | None \<Rightarrow> Inr (appendVisits (TimelineObjects w) [])))"

subsection \<open>The matching pipeline\<close>

text \<open>
  \<^verbatim>\<open>orb.Point\<close> is \<^verbatim>\<open>[2]float64\<close>, here a pair: the first component is index 0, the second
  index 1. The distance function is a parameter of the functions below; the program passes
  \<^verbatim>\<open>geo.DistanceHaversine\<close>, which is \<open>geo_DistanceHaversine\<close> further down.
\<close>

type_synonym orb_Point = "float64 \<times> float64"

type_synonym distance = "orb_Point \<Rightarrow> orb_Point \<Rightarrow> float64"

text \<open>
  The body of the loop of \<^verbatim>\<open>processFile\<close> over \<^verbatim>\<open>places\<close>. The state is the day set and the
  counter \<^verbatim>\<open>placesProcessed\<close>.
\<close>

definition processPlace ::
  "distance \<Rightarrow> Time \<Rightarrow> Time \<Rightarrow> orb_Point \<Rightarrow> float64 \<Rightarrow> timelinePoint \<Rightarrow>
   dayMap \<times> nat \<Rightarrow> dayMap \<times> nat" where
  "processPlace DistanceHaversine startDate endDate officeLocation tolerance place st =
     (case st of (daysInTheOffice, placesProcessed) \<Rightarrow>
        if Before (End place) startDate \<or> After (Start place) endDate
        then (daysInTheOffice, placesProcessed)
        else
          let loc = (Latitude place, Longitude place);
              dist = DistanceHaversine officeLocation loc
          in ((if dist \<le> tolerance then Add (Start place) daysInTheOffice
               else daysInTheOffice),
              placesProcessed + 1))"

fun processPlaces ::
  "distance \<Rightarrow> Time \<Rightarrow> Time \<Rightarrow> orb_Point \<Rightarrow> float64 \<Rightarrow> timelinePoint list \<Rightarrow>
   dayMap \<times> nat \<Rightarrow> dayMap \<times> nat" where
  "processPlaces DistanceHaversine startDate endDate officeLocation tolerance [] st = st"
| "processPlaces DistanceHaversine startDate endDate officeLocation tolerance (place # rest) st =
     processPlaces DistanceHaversine startDate endDate officeLocation tolerance rest
       (processPlace DistanceHaversine startDate endDate officeLocation tolerance place st)"

text \<open>
  The file system: what \<^verbatim>\<open>os.OpenFile\<close> returns for a name, an error or an open file; an
  open file is given by what the JSON decoder makes of its bytes.
\<close>

type_synonym files = "string \<Rightarrow> error + decoded"

text \<open>The lines \<^verbatim>\<open>processFile\<close> logs, each under the file's name.\<close>

datatype logLine =
    CouldNotOpenFile string error
  | CouldNotParseFile string failure
  | FoundVisits string nat nat

text \<open>
  \<^verbatim>\<open>processFile\<close>. When \<^verbatim>\<open>os.OpenFile\<close> fails the function logs the error and goes on with
  the nil \<^verbatim>\<open>*os.File\<close>; reading from it fails (\<^verbatim>\<open>os.ErrInvalid\<close>), so the decoder returns
  that error. When \<^verbatim>\<open>ParseTimelineInput\<close> returns an error the function logs it and goes on
  with the nil slice \<^verbatim>\<open>places\<close>. A panic is not recovered: it ends the function, and the
  program.
\<close>

definition processFile ::
  "files \<Rightarrow> (string \<Rightarrow> float64 \<times> error option) \<Rightarrow> distance \<Rightarrow>
   string \<Rightarrow> Time \<Rightarrow> Time \<Rightarrow> orb_Point \<Rightarrow> float64 \<Rightarrow> dayMap \<Rightarrow>
   failure + dayMap \<times> logLine list" where
  "processFile OpenFile ParseFloat DistanceHaversine
       fileName startDate endDate officeLocation tolerance daysInTheOffice =
     (let (log1, input) =
            (case OpenFile fileName of
               Inl err \<Rightarrow> ([CouldNotOpenFile fileName err], Inl ''invalid argument'')
             | Inr file \<Rightarrow> ([], file))
      in case ParseTimelineInput ParseFloat input of
           Inl (IndexOutOfRange i n) \<Rightarrow> Inl (IndexOutOfRange i n)
         | Inl (DecodingJSON err) \<Rightarrow>
             Inr (daysInTheOffice,
                  log1 @ [CouldNotParseFile fileName (DecodingJSON err), FoundVisits fileName 0 0])
         | Inr places \<Rightarrow>
             (case processPlaces DistanceHaversine startDate endDate officeLocation tolerance
                     places (daysInTheOffice, 0) of
                (days, placesProcessed) \<Rightarrow>
                  Inr (days, log1 @ [FoundVisits fileName (length places) placesProcessed])))"

text \<open>The loop of \<^verbatim>\<open>main\<close> over \<^verbatim>\<open>fileNames\<close>, on the shared day set.\<close>

fun processFiles ::
  "files \<Rightarrow> (string \<Rightarrow> float64 \<times> error option) \<Rightarrow> distance \<Rightarrow>
   Time \<Rightarrow> Time \<Rightarrow> orb_Point \<Rightarrow> float64 \<Rightarrow> string list \<Rightarrow> dayMap \<Rightarrow> failure + dayMap" where
  "processFiles OpenFile ParseFloat DistanceHaversine
       startDate endDate officeLocation tolerance [] daysInTheOffice = Inr daysInTheOffice"
| "processFiles OpenFile ParseFloat DistanceHaversine
       startDate endDate officeLocation tolerance (fileName # rest) daysInTheOffice =
     (case processFile OpenFile ParseFloat DistanceHaversine
             fileName startDate endDate officeLocation tolerance daysInTheOffice of
        Inl panic \<Rightarrow> Inl panic
      | Inr (days, logged) \<Rightarrow>
          processFiles OpenFile ParseFloat DistanceHaversine
            startDate endDate officeLocation tolerance rest days)"

subsection \<open>Notions used to state the properties, and example values\<close>

text \<open>The place visits of a document: the entries whose \<^verbatim>\<open>PlaceVisit\<close> is not nil, in order.\<close>

fun placeVisits :: "timelineObject list \<Rightarrow> timelineVisitedPlace list" where
  "placeVisits [] = []"
| "placeVisits (entry # rest) =
     (case PlaceVisit entry of None \<Rightarrow> placeVisits rest | Some pv \<Rightarrow> pv # placeVisits rest)"

text \<open>The timestamp with offset 0 (\<^verbatim>\<open>Z\<close>) at a number of seconds since the Unix epoch.\<close>

definition utc :: "int \<Rightarrow> Time" where
  "utc seconds = \<lparr>instant = seconds * 1000000000, zone = 0\<rparr>"

text \<open>
  A place visit whose centre lies on the equator: \<^verbatim>\<open>centerLatE7\<close> is 0 and
  \<^verbatim>\<open>centerLngE7\<close> is not. The document holds an activity segment and this visit.
\<close>

definition visitOnEquator :: timelineVisitedPlace where
  "visitOnEquator =
     \<lparr>Location_LatitudeE7 = 1234, Location_LongitudeE7 = 100000000,
      Location_Address = ''quay'', Location_Name = ''pier'',
      Duration_Start = utc 1640995200, Duration_End = utc 1641168000,
      VisitConfidence = 90, CenterLatE7 = 0, CenterLngE7 = 99999999\<rparr>"

definition equatorDocument :: wrapper where
  "equatorDocument =
     \<lparr>TimelineObjects = [\<lparr>PlaceVisit = None\<rparr>, \<lparr>PlaceVisit = Some visitOnEquator\<rparr>],
      SemanticSegments = None\<rparr>"

text \<open>
  A document of semantic segments: two path points in the first segment, none in the second,
  one in the third; it also carries a residual \<^verbatim>\<open>timelineObjects\<close> key with a place visit.
  Then documents of timeline objects, and the empty JSON object.
\<close>

definition examplePath :: "pathPoint list" where
  "examplePath =
     [\<lparr>Point = ''48.1794935'' @ degreeSign @ '', 11.5858037'' @ degreeSign,
       Time = utc 1641081600\<rparr>,
      \<lparr>Point = ''51.6503959'' @ degreeSign @ '', 5.0492413'' @ degreeSign,
       Time = utc 1641085200\<rparr>]"

definition exampleSegments :: "semanticSegment list" where
  "exampleSegments =
     [\<lparr>StartTime = utc 1641081600, EndTime = utc 1641088800, TimelinePath = examplePath\<rparr>,
      \<lparr>StartTime = utc 1641168000, EndTime = utc 1641171600, TimelinePath = []\<rparr>,
      \<lparr>StartTime = utc 1641254400, EndTime = utc 1641258000,
       TimelinePath = [\<lparr>Point = ''0, 0'', Time = utc 1641254400\<rparr>]\<rparr>]"

definition segmentsDocument :: wrapper where
  "segmentsDocument =
     \<lparr>TimelineObjects = [\<lparr>PlaceVisit = Some visitOnEquator\<rparr>],
      SemanticSegments = Some exampleSegments\<rparr>"

definition munichVisit :: timelineVisitedPlace where
  "munichVisit =
     \<lparr>Location_LatitudeE7 = 481790000, Location_LongitudeE7 = 115850000,
      Location_Address = ''street'', Location_Name = ''office'',
      Duration_Start = utc 1641081600, Duration_End = utc 1641110400,
      VisitConfidence = 95, CenterLatE7 = 481794935, CenterLngE7 = 115858037\<rparr>"

definition visitsDocument :: wrapper where
  "visitsDocument =
     \<lparr>TimelineObjects =
        [\<lparr>PlaceVisit = Some munichVisit\<rparr>, \<lparr>PlaceVisit = None\<rparr>,
         \<lparr>PlaceVisit = Some visitOnEquator\<rparr>],
      SemanticSegments = None\<rparr>"

definition activitiesDocument :: wrapper where
  "activitiesDocument =
     \<lparr>TimelineObjects = [\<lparr>PlaceVisit = None\<rparr>, \<lparr>PlaceVisit = None\<rparr>],
      SemanticSegments = None\<rparr>"

definition emptyObject :: wrapper where
  "emptyObject = \<lparr>TimelineObjects = [], SemanticSegments = None\<rparr>"

text \<open>
  A computable stand-in for the distance function, on which examples can be run: 1000 metres
  for each degree of difference in either coordinate. The properties of the pipeline hold for
  every distance function.
\<close>

definition gridDistance :: distance where
  "gridDistance a b = 1000 * (\<bar>fst a - fst b\<bar> + \<bar>snd a - snd b\<bar>)"

text \<open>The reference point of the examples.\<close>

definition office :: orb_Point where
  "office = (48.1794935, 11.5858037)"

text \<open>A directory: a file that cannot be opened, one that does not decode, and two exports.\<close>

definition exampleFiles :: files where
  "exampleFiles name =
     (if name = ''missing.json'' then Inl ''no such file or directory''
      else if name = ''broken.json'' then Inr (Inl ''unexpected end of JSON input'')
      else if name = ''visits.json'' then Inr (Inr visitsDocument)
      else if name = ''segments.json'' then Inr (Inr segmentsDocument)
      else Inl ''no such file or directory'')"

text \<open>
  The day sets the program can hold: \<^verbatim>\<open>main\<close> makes the empty one, and \<^verbatim>\<open>Add\<close> is the only
  function that writes to it. \<open>inserted ts\<close> is the day set after the timestamps \<open>ts\<close> have
  been inserted in order.
\<close>

definition inserted :: "Time list \<Rightarrow> dayMap" where
  "inserted ts = fold Add ts Map.empty"

text \<open>
  Timestamps of the examples: 2022-01-03 23:00 at offset +01:00; and one instant written
  twice, as 2022-01-07 23:30 at offset 0 and as 2022-01-08 00:30 at offset +01:00.
\<close>

definition lateMonday :: Time where
  "lateMonday = \<lparr>instant = 1641247200000000000, zone = 3600\<rparr>"

definition fridayNight :: Time where
  "fridayNight = \<lparr>instant = 1641598200000000000, zone = 0\<rparr>"

definition saturdayMorning :: Time where
  "saturdayMorning = \<lparr>instant = 1641598200000000000, zone = 3600\<rparr>"

subsection \<open>The distance of package geo\<close>

text \<open>
  \<^verbatim>\<open>geo.DistanceHaversine\<close> of the library \<^verbatim>\<open>github.com/paulmach/orb\<close>, which is outside the
  repository, written over the reals. The library reads a point as longitude at index 0 and
  latitude at index 1. \<open>Atan2 y x\<close> is \<^verbatim>\<open>math.Atan2(y, x)\<close>.
\<close>

definition EarthRadius :: float64 where
  "EarthRadius = 6378137"

definition deg2rad :: "float64 \<Rightarrow> float64" where
  "deg2rad d = d * pi / 180"

definition Atan2 :: "float64 \<Rightarrow> float64 \<Rightarrow> float64" where
  "Atan2 y x =
     (if 0 < x then arctan (y / x)
      else if x < 0 then (if 0 \<le> y then arctan (y / x) + pi else arctan (y / x) - pi)
      else if 0 < y then pi / 2 else if y < 0 then - (pi / 2) else 0)"

definition geo_DistanceHaversine :: distance where
  "geo_DistanceHaversine p1 p2 =
     (let dLat = deg2rad (snd p1 - snd p2);
          dLon = deg2rad (fst p1 - fst p2);
          dLat2Sin = sin (dLat / 2);
          dLon2Sin = sin (dLon / 2);
          a = dLat2Sin * dLat2Sin
              + cos (deg2rad (snd p2)) * cos (deg2rad (snd p1)) * dLon2Sin * dLon2Sin
      in 2 * EarthRadius * Atan2 (sqrt a) (sqrt (1 - a)))"

text \<open>
  The haversine distance between two coordinates given as (latitude, longitude), the order in
  which the program holds them: each goes to the library with the longitude first.
\<close>

definition haversineLatLon :: "float64 \<times> float64 \<Rightarrow> float64 \<times> float64 \<Rightarrow> float64" where
  "haversineLatLon c1 c2 = geo_DistanceHaversine (snd c1, fst c1) (snd c2, fst c2)"

text \<open>
  The time filter in the words of the specification: the record's interval lies entirely
  before the start of the range, or entirely after its end.
\<close>

definition outsideRange :: "Time \<Rightarrow> Time \<Rightarrow> timelinePoint \<Rightarrow> bool" where
  "outsideRange startDate endDate place =
     (instant (End place) < instant startDate \<or> instant (Start place) > instant endDate)"

text \<open>
  A reference point at latitude 60, longitude 60, and two place visits on Monday 2022-01-03:
  one 0.002 degrees east of it, one 0.002 degrees north of it, each in a file of its own.
\<close>

definition officeAt60 :: orb_Point where
  "officeAt60 = (60, 60)"

definition visitEast :: timelineVisitedPlace where
  "visitEast =
     \<lparr>Location_LatitudeE7 = 600000000, Location_LongitudeE7 = 600020000,
      Location_Address = ''east'', Location_Name = ''east'',
      Duration_Start = utc 1641200400, Duration_End = utc 1641229200,
      VisitConfidence = 90, CenterLatE7 = 600000000, CenterLngE7 = 600020000\<rparr>"

definition visitNorth :: timelineVisitedPlace where
  "visitNorth =
     \<lparr>Location_LatitudeE7 = 600020000, Location_LongitudeE7 = 600000000,
      Location_Address = ''north'', Location_Name = ''north'',
      Duration_Start = utc 1641200400, Duration_End = utc 1641229200,
      VisitConfidence = 90, CenterLatE7 = 600020000, CenterLngE7 = 600000000\<rparr>"

definition displacedFiles :: files where
  "displacedFiles name =
     (if name = ''east.json''
      then Inr (Inr \<lparr>TimelineObjects = [\<lparr>PlaceVisit = Some visitEast\<rparr>],
                      SemanticSegments = None\<rparr>)
      else if name = ''north.json''
      then Inr (Inr \<lparr>TimelineObjects = [\<lparr>PlaceVisit = Some visitNorth\<rparr>],
                      SemanticSegments = None\<rparr>)
      else Inl ''no such file or directory'')"

section \<open>Properties\<close>

subsection \<open>The point parser\<close>

lemma splitFrom_nonempty: "splitFrom sep cur s \<noteq> []"
  by (induction sep cur s rule: splitFrom.induct) auto

lemma splitFrom_single:
  "sep \<noteq> [] \<Longrightarrow> (\<exists>x. splitFrom sep cur s = [x]) = (\<not> Contains s sep)"
proof (induction sep cur s rule: splitFrom.induct)
  case (1 sep cur)
  then show ?case by simp
next
  case (2 sep cur c cs)
  show ?case
  proof (cases "prefix sep (c # cs)")
    case True
    then show ?thesis using 2 splitFrom_nonempty by simp
  next
    case False
    then show ?thesis using 2 by simp
  qed
qed

text \<open>
  \<^verbatim>\<open>parsePoint\<close> panics exactly when the text, once the degree signs are removed, does not
  contain the separator \<^verbatim>\<open>", "\<close>; otherwise it returns a pair.
\<close>

lemma parsePoint_panics_iff:
  "(parsePoint ParseFloat val = Inl (IndexOutOfRange 1 1)) =
   (\<not> Contains (ReplaceAll val degreeSign []) '', '')"
proof -
  let ?s = "ReplaceAll val degreeSign []"
  have single: "(\<exists>x. Split ?s '', '' = [x]) = (\<not> Contains ?s '', '')"
    unfolding Split_def by (rule splitFrom_single) simp
  have ne: "Split ?s '', '' \<noteq> []"
    unfolding Split_def by (rule splitFrom_nonempty)
  show ?thesis
  proof (cases "Split ?s '', ''")
    case Nil
    then show ?thesis using ne by simp
  next
    case (Cons c0 r)
    then show ?thesis using single
      by (cases r) (simp_all add: parsePoint_def)
  qed
qed

lemma parsePoint_returns_iff:
  "(\<exists>r. parsePoint ParseFloat val = Inr r) = Contains (ReplaceAll val degreeSign []) '', ''"
proof -
  have "parsePoint ParseFloat val = Inl (IndexOutOfRange 1 1)
        \<or> (\<exists>r. parsePoint ParseFloat val = Inr r)"
    using splitFrom_nonempty[of "'', ''" "[]" "ReplaceAll val degreeSign []"]
    by (auto simp: parsePoint_def Split_def split: list.splits)
  then show ?thesis using parsePoint_panics_iff[of ParseFloat val] by auto
qed

lemma parsePoint_non_numeric:
  "parsePoint decimalParseFloat ''north, east'' = Inr (0, 0)"
  by (simp add: parsePoint_def Split_def degreeSign_def decimalParseFloat_def isDigit_def
        digitsValue_def)

lemma parsePoint_example:
  "parsePoint decimalParseFloat (''51.6503959'' @ degreeSign @ '', 5.0492413'' @ degreeSign)
   = Inr (51.6503959, 5.0492413)"
  by (simp add: parsePoint_def Split_def degreeSign_def decimalParseFloat_def isDigit_def
        digitsValue_def)

text \<open>
  Claim C1. The claim says that \<^verbatim>\<open>parsePoint\<close> returns a pair for every input string and that
  a missing comma-and-space separator gives zero values. On a text without the separator
  the function does not return: it reads \<^verbatim>\<open>coords[1]\<close> from a slice of one element and
  panics, whatever \<^verbatim>\<open>strconv.ParseFloat\<close> does. The inputs below are a lone number, the
  empty string, and a pair separated by a comma without the space; the panic passes through
  \<^verbatim>\<open>ParseTimelineInput\<close> on a document with such a path point.
\<close>

theorem parsePoint_missing_separator_panics:
  "parsePoint ParseFloat ''51.6503959'' = Inl (IndexOutOfRange 1 1)
   \<and> parsePoint ParseFloat [] = Inl (IndexOutOfRange 1 1)
   \<and> parsePoint ParseFloat (''51.6503959'' @ degreeSign @ '',5.0492413'' @ degreeSign)
       = Inl (IndexOutOfRange 1 1)
   \<and> ParseTimelineInput ParseFloat
         (Inr \<lparr>TimelineObjects = [],
               SemanticSegments =
                 Some [\<lparr>StartTime = s, EndTime = e,
                        TimelinePath = [\<lparr>Point = ''51.6503959'', Time = t\<rparr>]\<rparr>]\<rparr>)
       = Inl (IndexOutOfRange 1 1)"
  by (simp add: ParseTimelineInput_def parsePoint_def Split_def degreeSign_def)

subsection \<open>The schema normaliser: timeline objects\<close>

lemma appendVisits_eq:
  "appendVisits objs result = result @ map visitPoint (placeVisits objs)"
  by (induction objs arbitrary: result) (auto split: option.splits)

lemma ParseTimelineInput_visits:
  "SemanticSegments w = None \<Longrightarrow>
   ParseTimelineInput ParseFloat (Inr w) = Inr (map visitPoint (placeVisits (TimelineObjects w)))"
  by (simp add: ParseTimelineInput_def appendVisits_eq)

lemma visitPoint_coordinates:
  "Latitude (visitPoint pv) =
     real_of_int (if CenterLatE7 pv = 0 \<or> CenterLngE7 pv = 0
                  then Location_LatitudeE7 pv else CenterLatE7 pv) / 10000000"
  "Longitude (visitPoint pv) =
     real_of_int (if CenterLatE7 pv = 0 \<or> CenterLngE7 pv = 0
                  then Location_LongitudeE7 pv else CenterLngE7 pv) / 10000000"
  "Start (visitPoint pv) = Duration_Start pv"
  "End (visitPoint pv) = Duration_End pv"
  by (simp_all add: visitPoint_def Let_def)

text \<open>
  Claim C2, as amended. In a document read as timeline objects, the record of every place
  visit takes its coordinates from the nested location exactly when \<^verbatim>\<open>centerLatE7\<close> or
  \<^verbatim>\<open>centerLngE7\<close> is zero (an absent field decodes to zero), and from the centre fields
  otherwise: one zero field is enough, the claim asked for both.
\<close>

theorem fallback_when_either_center_field_is_zero:
  assumes "SemanticSegments w = None"
  shows "\<exists>ps. ParseTimelineInput ParseFloat (Inr w) = Inr ps
           \<and> list_all2
               (\<lambda>pv r. (Latitude r, Longitude r) =
                  (if CenterLatE7 pv = 0 \<or> CenterLngE7 pv = 0
                   then (real_of_int (Location_LatitudeE7 pv) / 10000000,
                         real_of_int (Location_LongitudeE7 pv) / 10000000)
                   else (real_of_int (CenterLatE7 pv) / 10000000,
                         real_of_int (CenterLngE7 pv) / 10000000)))
               (placeVisits (TimelineObjects w)) ps"
proof -
  let ?pvs = "placeVisits (TimelineObjects w)"
  have "ParseTimelineInput ParseFloat (Inr w) = Inr (map visitPoint ?pvs)"
    using assms by (rule ParseTimelineInput_visits)
  moreover have "list_all2
               (\<lambda>pv r. (Latitude r, Longitude r) =
                  (if CenterLatE7 pv = 0 \<or> CenterLngE7 pv = 0
                   then (real_of_int (Location_LatitudeE7 pv) / 10000000,
                         real_of_int (Location_LongitudeE7 pv) / 10000000)
                   else (real_of_int (CenterLatE7 pv) / 10000000,
                         real_of_int (CenterLngE7 pv) / 10000000)))
               ?pvs (map visitPoint ?pvs)"
    by (simp add: list_all2_map2 list.rel_refl visitPoint_coordinates)
  ultimately show ?thesis by blast
qed

text \<open>The amended claim C2 on the document with the visit on the equator.\<close>

theorem fallback_when_either_center_field_is_zero_witness:
  "SemanticSegments equatorDocument = None
   \<and> (\<exists>ps. ParseTimelineInput decimalParseFloat (Inr equatorDocument) = Inr ps
          \<and> list_all2
               (\<lambda>pv r. (Latitude r, Longitude r) =
                  (if CenterLatE7 pv = 0 \<or> CenterLngE7 pv = 0
                   then (real_of_int (Location_LatitudeE7 pv) / 10000000,
                         real_of_int (Location_LongitudeE7 pv) / 10000000)
                   else (real_of_int (CenterLatE7 pv) / 10000000,
                         real_of_int (CenterLngE7 pv) / 10000000)))
               (placeVisits (TimelineObjects equatorDocument)) ps)"
proof -
  have h: "SemanticSegments equatorDocument = None"
    by (simp add: equatorDocument_def)
  show ?thesis
    using h fallback_when_either_center_field_is_zero [OF h, of decimalParseFloat] by blast
qed

text \<open>
  Claim C2 as stated fails: the centre fields of the visit on the equator are not both zero,
  yet its record carries the coordinates of the nested location, not those of the centre.
\<close>

theorem fallback_taken_with_one_zero_center_field:
  "\<not> (CenterLatE7 visitOnEquator = 0 \<and> CenterLngE7 visitOnEquator = 0)
   \<and> ParseTimelineInput decimalParseFloat (Inr equatorDocument)
      = Inr [\<lparr>Latitude = real_of_int (Location_LatitudeE7 visitOnEquator) / 10000000,
               Longitude = real_of_int (Location_LongitudeE7 visitOnEquator) / 10000000,
               Start = utc 1640995200, End = utc 1641168000\<rparr>]
   \<and> ParseTimelineInput decimalParseFloat (Inr equatorDocument)
      \<noteq> Inr [\<lparr>Latitude = real_of_int (CenterLatE7 visitOnEquator) / 10000000,
               Longitude = real_of_int (CenterLngE7 visitOnEquator) / 10000000,
               Start = utc 1640995200, End = utc 1641168000\<rparr>]"
  by (simp add: ParseTimelineInput_def visitPoint_def visitOnEquator_def equatorDocument_def)

subsection \<open>The schema normaliser: semantic segments, and the choice of the schema\<close>

lemma appendPath_records:
  assumes "\<forall>p \<in> set pts. Contains (ReplaceAll (Point p) degreeSign []) '', ''"
  shows "\<exists>ps. appendPath ParseFloat entry pts result = Inr (result @ ps)
           \<and> map (\<lambda>r. Inr (Latitude r, Longitude r)) ps
               = map (\<lambda>p. parsePoint ParseFloat (Point p)) pts
           \<and> map (\<lambda>r. (Start r, End r)) ps = map (\<lambda>p. (StartTime entry, EndTime entry)) pts"
  using assms
proof (induction pts arbitrary: result)
  case Nil
  then show ?case by simp
next
  case (Cons point rest)
  from Cons.prems have "Contains (ReplaceAll (Point point) degreeSign []) '', ''" by simp
  then obtain lat long where pp: "parsePoint ParseFloat (Point point) = Inr (lat, long)"
    using parsePoint_returns_iff[of ParseFloat "Point point"] by auto
  let ?r = "\<lparr>Latitude = lat, Longitude = long, Start = StartTime entry, End = EndTime entry\<rparr>"
  from Cons.prems have "\<forall>p \<in> set rest. Contains (ReplaceAll (Point p) degreeSign []) '', ''"
    by simp
  from Cons.IH[OF this, of "result @ [?r]"]
  obtain ps where ps: "appendPath ParseFloat entry rest (result @ [?r]) = Inr ((result @ [?r]) @ ps)"
      "map (\<lambda>r. Inr (Latitude r, Longitude r)) ps = map (\<lambda>p. parsePoint ParseFloat (Point p)) rest"
      "map (\<lambda>r. (Start r, End r)) ps = map (\<lambda>p. (StartTime entry, EndTime entry)) rest"
    by blast
  have "appendPath ParseFloat entry (point # rest) result = Inr (result @ (?r # ps))"
    using pp ps(1) by simp
  moreover have "map (\<lambda>r. Inr (Latitude r, Longitude r)) (?r # ps)
               = map (\<lambda>p. parsePoint ParseFloat (Point p)) (point # rest)"
    using pp ps(2) by simp
  moreover have "map (\<lambda>r. (Start r, End r)) (?r # ps)
               = map (\<lambda>p. (StartTime entry, EndTime entry)) (point # rest)"
    using ps(3) by simp
  ultimately show ?case by blast
qed

lemma appendSegments_records:
  assumes "\<forall>seg \<in> set segs. \<forall>p \<in> set (TimelinePath seg).
             Contains (ReplaceAll (Point p) degreeSign []) '', ''"
  shows "\<exists>ps. appendSegments ParseFloat segs result = Inr (result @ ps)
           \<and> map (\<lambda>r. Inr (Latitude r, Longitude r)) ps
               = map (\<lambda>p. parsePoint ParseFloat (Point p)) (concat (map TimelinePath segs))
           \<and> map (\<lambda>r. (Start r, End r)) ps
               = concat (map (\<lambda>seg. map (\<lambda>p. (StartTime seg, EndTime seg)) (TimelinePath seg)) segs)"
  using assms
proof (induction segs arbitrary: result)
  case Nil
  then show ?case by simp
next
  case (Cons entry rest)
  from Cons.prems have "\<forall>p \<in> set (TimelinePath entry). Contains (ReplaceAll (Point p) degreeSign []) '', ''"
    by simp
  from appendPath_records[OF this, of ParseFloat entry result]
  obtain ps1 where ps1: "appendPath ParseFloat entry (TimelinePath entry) result = Inr (result @ ps1)"
      "map (\<lambda>r. Inr (Latitude r, Longitude r)) ps1
         = map (\<lambda>p. parsePoint ParseFloat (Point p)) (TimelinePath entry)"
      "map (\<lambda>r. (Start r, End r)) ps1 = map (\<lambda>p. (StartTime entry, EndTime entry)) (TimelinePath entry)"
    by blast
  from Cons.prems have "\<forall>seg \<in> set rest. \<forall>p \<in> set (TimelinePath seg).
             Contains (ReplaceAll (Point p) degreeSign []) '', ''"
    by simp
  from Cons.IH[OF this, of "result @ ps1"]
  obtain ps2 where ps2: "appendSegments ParseFloat rest (result @ ps1) = Inr ((result @ ps1) @ ps2)"
      "map (\<lambda>r. Inr (Latitude r, Longitude r)) ps2
         = map (\<lambda>p. parsePoint ParseFloat (Point p)) (concat (map TimelinePath rest))"
      "map (\<lambda>r. (Start r, End r)) ps2
         = concat (map (\<lambda>seg. map (\<lambda>p. (StartTime seg, EndTime seg)) (TimelinePath seg)) rest)"
    by blast
  have "appendSegments ParseFloat (entry # rest) result = Inr (result @ (ps1 @ ps2))"
    using ps1(1) ps2(1) by simp
  moreover have "map (\<lambda>r. Inr (Latitude r, Longitude r)) (ps1 @ ps2)
               = map (\<lambda>p. parsePoint ParseFloat (Point p)) (concat (map TimelinePath (entry # rest)))"
    using ps1(2) ps2(2) by simp
  moreover have "map (\<lambda>r. (Start r, End r)) (ps1 @ ps2)
               = concat (map (\<lambda>seg. map (\<lambda>p. (StartTime seg, EndTime seg)) (TimelinePath seg)) (entry # rest))"
    using ps1(3) ps2(3) by simp
  ultimately show ?case by blast
qed

lemma ParseTimelineInput_segments:
  "SemanticSegments w = Some segs \<Longrightarrow>
   ParseTimelineInput ParseFloat (Inr w) = appendSegments ParseFloat segs []"
  by (simp add: ParseTimelineInput_def)

text \<open>
  Claim C6. A document of semantic segments in which every point text has the separator
  gives exactly one record per path point, in the order of the document, each with the
  coordinates \<^verbatim>\<open>parsePoint\<close> reads from the point and the start and end of its segment. A
  document of timeline objects gives exactly one record per place visit that is not nil, in
  order, with the times of the visit and with coordinates equal to the E7 integers divided
  by \<open>10\<^sup>7\<close>; \<^verbatim>\<open>centerLatE7 = 481794935\<close> and \<^verbatim>\<open>centerLngE7 = 115858037\<close> give latitude
  48.1794935 and longitude 11.5858037.
\<close>

theorem normalize_one_record_per_entry:
  "(SemanticSegments w = Some segs
      \<and> (\<forall>seg \<in> set segs. \<forall>p \<in> set (TimelinePath seg).
             Contains (ReplaceAll (Point p) degreeSign []) '', '')
    \<longrightarrow> (\<exists>ps. ParseTimelineInput ParseFloat (Inr w) = Inr ps
           \<and> length ps = length (concat (map TimelinePath segs))
           \<and> map (\<lambda>r. Inr (Latitude r, Longitude r)) ps
               = map (\<lambda>p. parsePoint ParseFloat (Point p)) (concat (map TimelinePath segs))
           \<and> map (\<lambda>r. (Start r, End r)) ps
               = concat (map (\<lambda>seg. map (\<lambda>p. (StartTime seg, EndTime seg)) (TimelinePath seg))
                   segs)))
   \<and> (SemanticSegments w = None
    \<longrightarrow> (\<exists>ps. ParseTimelineInput ParseFloat (Inr w) = Inr ps
           \<and> length ps = length (placeVisits (TimelineObjects w))
           \<and> map Latitude ps
               = map (\<lambda>pv. real_of_int (if CenterLatE7 pv = 0 \<or> CenterLngE7 pv = 0
                                        then Location_LatitudeE7 pv else CenterLatE7 pv) / 10000000)
                   (placeVisits (TimelineObjects w))
           \<and> map Longitude ps
               = map (\<lambda>pv. real_of_int (if CenterLatE7 pv = 0 \<or> CenterLngE7 pv = 0
                                        then Location_LongitudeE7 pv else CenterLngE7 pv) / 10000000)
                   (placeVisits (TimelineObjects w))
           \<and> map (\<lambda>r. (Start r, End r)) ps
               = map (\<lambda>pv. (Duration_Start pv, Duration_End pv)) (placeVisits (TimelineObjects w))))
   \<and> (CenterLatE7 pv = 481794935 \<and> CenterLngE7 pv = 115858037
    \<longrightarrow> Latitude (visitPoint pv) = 48.1794935 \<and> Longitude (visitPoint pv) = 11.5858037)"
proof (intro conjI impI)
  assume a: "SemanticSegments w = Some segs
      \<and> (\<forall>seg \<in> set segs. \<forall>p \<in> set (TimelinePath seg).
             Contains (ReplaceAll (Point p) degreeSign []) '', '')"
  then have wf: "\<forall>seg \<in> set segs. \<forall>p \<in> set (TimelinePath seg).
             Contains (ReplaceAll (Point p) degreeSign []) '', ''" by simp
  from appendSegments_records[OF wf, of ParseFloat "[]"]
  obtain ps where ps: "appendSegments ParseFloat segs [] = Inr ps"
      "map (\<lambda>r. Inr (Latitude r, Longitude r)) ps
         = map (\<lambda>p. parsePoint ParseFloat (Point p)) (concat (map TimelinePath segs))"
      "map (\<lambda>r. (Start r, End r)) ps
         = concat (map (\<lambda>seg. map (\<lambda>p. (StartTime seg, EndTime seg)) (TimelinePath seg)) segs)"
    by auto
  have "length ps = length (concat (map TimelinePath segs))"
    using arg_cong[OF ps(2), of length] by (simp only: length_map)
  then show "\<exists>ps. ParseTimelineInput ParseFloat (Inr w) = Inr ps
           \<and> length ps = length (concat (map TimelinePath segs))
           \<and> map (\<lambda>r. Inr (Latitude r, Longitude r)) ps
               = map (\<lambda>p. parsePoint ParseFloat (Point p)) (concat (map TimelinePath segs))
           \<and> map (\<lambda>r. (Start r, End r)) ps
               = concat (map (\<lambda>seg. map (\<lambda>p. (StartTime seg, EndTime seg)) (TimelinePath seg))
                   segs)"
    using ps a ParseTimelineInput_segments[of w segs ParseFloat] by auto
next
  assume "SemanticSegments w = None"
  then have "ParseTimelineInput ParseFloat (Inr w)
               = Inr (map visitPoint (placeVisits (TimelineObjects w)))"
    by (rule ParseTimelineInput_visits)
  then show "\<exists>ps. ParseTimelineInput ParseFloat (Inr w) = Inr ps
           \<and> length ps = length (placeVisits (TimelineObjects w))
           \<and> map Latitude ps
               = map (\<lambda>pv. real_of_int (if CenterLatE7 pv = 0 \<or> CenterLngE7 pv = 0
                                        then Location_LatitudeE7 pv else CenterLatE7 pv) / 10000000)
                   (placeVisits (TimelineObjects w))
           \<and> map Longitude ps
               = map (\<lambda>pv. real_of_int (if CenterLatE7 pv = 0 \<or> CenterLngE7 pv = 0
                                        then Location_LongitudeE7 pv else CenterLngE7 pv) / 10000000)
                   (placeVisits (TimelineObjects w))
           \<and> map (\<lambda>r. (Start r, End r)) ps
               = map (\<lambda>pv. (Duration_Start pv, Duration_End pv)) (placeVisits (TimelineObjects w))"
    by (simp add: visitPoint_coordinates o_def)
next
  assume "CenterLatE7 pv = 481794935 \<and> CenterLngE7 pv = 115858037"
  then show "Latitude (visitPoint pv) = 48.1794935" by (simp add: visitPoint_coordinates)
next
  assume "CenterLatE7 pv = 481794935 \<and> CenterLngE7 pv = 115858037"
  then show "Longitude (visitPoint pv) = 11.5858037" by (simp add: visitPoint_coordinates)
qed


text \<open>Claim C6 on the example documents.\<close>

theorem normalize_one_record_per_entry_witness:
  "(\<exists>ps. ParseTimelineInput decimalParseFloat (Inr segmentsDocument) = Inr ps
      \<and> length ps = 3
      \<and> map (\<lambda>r. (Start r, End r)) ps
          = [(utc 1641081600, utc 1641088800), (utc 1641081600, utc 1641088800),
             (utc 1641254400, utc 1641258000)])
   \<and> (\<exists>ps. ParseTimelineInput decimalParseFloat (Inr visitsDocument) = Inr ps
      \<and> length ps = 2
      \<and> map Latitude ps = [48.1794935, 0.0001234]
      \<and> map Longitude ps = [11.5858037, 10])
   \<and> Latitude (visitPoint munichVisit) = 48.1794935
   \<and> Longitude (visitPoint munichVisit) = 11.5858037"
proof -
  have hA: "SemanticSegments segmentsDocument = Some exampleSegments
            \<and> (\<forall>seg \<in> set exampleSegments. \<forall>p \<in> set (TimelinePath seg).
                  Contains (ReplaceAll (Point p) degreeSign []) '', '')"
    by (simp add: segmentsDocument_def exampleSegments_def examplePath_def degreeSign_def)
  have hB: "SemanticSegments visitsDocument = None"
    by (simp add: visitsDocument_def)
  have hC: "CenterLatE7 munichVisit = 481794935 \<and> CenterLngE7 munichVisit = 115858037"
    by (simp add: munichVisit_def)
  have pathsA: "concat (map TimelinePath exampleSegments)
                  = examplePath @ [\<lparr>Point = ''0, 0'', Time = utc 1641254400\<rparr>]"
    by (simp add: exampleSegments_def)
  have timesA: "concat (map (\<lambda>seg. map (\<lambda>p. (StartTime seg, EndTime seg)) (TimelinePath seg))
                   exampleSegments)
                 = [(utc 1641081600, utc 1641088800), (utc 1641081600, utc 1641088800),
                    (utc 1641254400, utc 1641258000)]"
    by (simp add: exampleSegments_def examplePath_def)
  have visitsB: "placeVisits (TimelineObjects visitsDocument) = [munichVisit, visitOnEquator]"
    by (simp add: visitsDocument_def)
  from normalize_one_record_per_entry
         [of segmentsDocument exampleSegments decimalParseFloat munichVisit] hA
  obtain ps where psA: "ParseTimelineInput decimalParseFloat (Inr segmentsDocument) = Inr ps"
      "length ps = length (concat (map TimelinePath exampleSegments))"
      "map (\<lambda>r. (Start r, End r)) ps
         = concat (map (\<lambda>seg. map (\<lambda>p. (StartTime seg, EndTime seg)) (TimelinePath seg))
             exampleSegments)"
    by blast
  have A: "\<exists>ps. ParseTimelineInput decimalParseFloat (Inr segmentsDocument) = Inr ps
      \<and> length ps = 3
      \<and> map (\<lambda>r. (Start r, End r)) ps
          = [(utc 1641081600, utc 1641088800), (utc 1641081600, utc 1641088800),
             (utc 1641254400, utc 1641258000)]"
    using psA by (simp add: pathsA timesA examplePath_def)
  from normalize_one_record_per_entry
         [of visitsDocument "[]" decimalParseFloat munichVisit] hB
  obtain qs where psB: "ParseTimelineInput decimalParseFloat (Inr visitsDocument) = Inr qs"
      "length qs = length (placeVisits (TimelineObjects visitsDocument))"
      "map Latitude qs
         = map (\<lambda>pv. real_of_int (if CenterLatE7 pv = 0 \<or> CenterLngE7 pv = 0
                                  then Location_LatitudeE7 pv else CenterLatE7 pv) / 10000000)
             (placeVisits (TimelineObjects visitsDocument))"
      "map Longitude qs
         = map (\<lambda>pv. real_of_int (if CenterLatE7 pv = 0 \<or> CenterLngE7 pv = 0
                                  then Location_LongitudeE7 pv else CenterLngE7 pv) / 10000000)
             (placeVisits (TimelineObjects visitsDocument))"
    by blast
  have B: "\<exists>ps. ParseTimelineInput decimalParseFloat (Inr visitsDocument) = Inr ps
      \<and> length ps = 2
      \<and> map Latitude ps = [48.1794935, 0.0001234]
      \<and> map Longitude ps = [11.5858037, 10]"
    using psB by (simp add: visitsB munichVisit_def visitOnEquator_def)
  have C: "Latitude (visitPoint munichVisit) = 48.1794935
           \<and> Longitude (visitPoint munichVisit) = 11.5858037"
    using normalize_one_record_per_entry
            [of visitsDocument "[]" decimalParseFloat munichVisit] hC
    by blast
  from A B C show ?thesis by blast
qed

text \<open>
  Claim C5. When \<^verbatim>\<open>SemanticSegments\<close> is not nil, be it empty, the result is that of the loop
  over the segments and does not depend on \<^verbatim>\<open>TimelineObjects\<close>; with the empty array there
  are no records. When it is nil, the result is that of the loop over the timeline objects.
\<close>

theorem semantic_segments_take_precedence:
  "(SemanticSegments w = Some segs
    \<longrightarrow> ParseTimelineInput ParseFloat (Inr w) = appendSegments ParseFloat segs []
       \<and> ParseTimelineInput ParseFloat (Inr (w\<lparr>TimelineObjects := objs\<rparr>))
           = ParseTimelineInput ParseFloat (Inr w))
   \<and> (SemanticSegments w = Some [] \<longrightarrow> ParseTimelineInput ParseFloat (Inr w) = Inr [])
   \<and> (SemanticSegments w = None
    \<longrightarrow> ParseTimelineInput ParseFloat (Inr w) = Inr (appendVisits (TimelineObjects w) [])
       \<and> ParseTimelineInput ParseFloat (Inr w)
           = Inr (map visitPoint (placeVisits (TimelineObjects w))))"
  by (simp add: ParseTimelineInput_def appendVisits_eq)

text \<open>Claim C5 on the example documents.\<close>

theorem semantic_segments_take_precedence_witness:
  "ParseTimelineInput decimalParseFloat (Inr (segmentsDocument\<lparr>TimelineObjects := []\<rparr>))
     = ParseTimelineInput decimalParseFloat (Inr segmentsDocument)
   \<and> ParseTimelineInput decimalParseFloat
        (Inr \<lparr>TimelineObjects = [\<lparr>PlaceVisit = Some visitOnEquator\<rparr>],
              SemanticSegments = Some []\<rparr>) = Inr []
   \<and> ParseTimelineInput decimalParseFloat (Inr equatorDocument) = Inr [visitPoint visitOnEquator]"
  using semantic_segments_take_precedence
          [of segmentsDocument "the (SemanticSegments segmentsDocument)" decimalParseFloat "[]"]
        semantic_segments_take_precedence
          [of "\<lparr>TimelineObjects = [\<lparr>PlaceVisit = Some visitOnEquator\<rparr>],
                SemanticSegments = Some []\<rparr>" "[]" decimalParseFloat "[]"]
        semantic_segments_take_precedence
          [of equatorDocument "[]" decimalParseFloat "[]"]
  by (simp add: segmentsDocument_def equatorDocument_def)

lemma placeVisits_empty:
  "(placeVisits objs = []) = (\<forall>entry \<in> set objs. PlaceVisit entry = None)"
  by (induction objs) (auto split: option.splits)

text \<open>
  Claim C10. A decoded document with no \<^verbatim>\<open>semanticSegments\<close> key and no place visit among its
  timeline objects, such as the empty object, normalises to the empty sequence of records
  and not to an error.
\<close>

theorem no_schema_key_gives_no_records:
  assumes "SemanticSegments w = None"
    and "\<forall>entry \<in> set (TimelineObjects w). PlaceVisit entry = None"
  shows "ParseTimelineInput ParseFloat (Inr w) = Inr []"
  using assms ParseTimelineInput_visits[of w ParseFloat] placeVisits_empty[of "TimelineObjects w"]
  by simp

text \<open>Claim C10 on the empty object and on a document of activity segments only.\<close>

theorem no_schema_key_gives_no_records_witness:
  "ParseTimelineInput decimalParseFloat (Inr emptyObject) = Inr []
   \<and> ParseTimelineInput decimalParseFloat (Inr activitiesDocument) = Inr []"
  using no_schema_key_gives_no_records [of emptyObject decimalParseFloat]
        no_schema_key_gives_no_records [of activitiesDocument decimalParseFloat]
  by (simp add: emptyObject_def activitiesDocument_def)

subsection \<open>Evaluating dates\<close>

lemma digits_small: "n < 10 \<Longrightarrow> digits n = [char_of (48 + n)]"
  by (simp add: digits.simps)

lemma digits_large: "10 \<le> n \<Longrightarrow> digits n = digits (n div 10) @ [char_of (48 + n mod 10)]"
  by (subst digits.simps) simp

lemma char_of_digit:
  "char_of (48::nat) = CHR ''0''" "char_of (49::nat) = CHR ''1''" "char_of (50::nat) = CHR ''2''"
  "char_of (51::nat) = CHR ''3''" "char_of (52::nat) = CHR ''4''" "char_of (53::nat) = CHR ''5''"
  "char_of (54::nat) = CHR ''6''" "char_of (55::nat) = CHR ''7''" "char_of (56::nat) = CHR ''8''"
  "char_of (57::nat) = CHR ''9''"
  by code_simp+

lemma replicate_small:
  "replicate 1 x = [x]" "replicate 2 x = [x, x]" "replicate 3 x = [x, x, x]"
  by (simp_all add: numeral_eq_Suc)

lemmas date_eval = Format_def Weekday_def weekdayOfDay_def [unfolded Let_def] utc_def localDay_def
  civil_def [unfolded Let_def] formatDate_def appendInt_def [unfolded Let_def]
  digits_small digits_large char_of_digit replicate_small

text \<open>The instants used in the examples, as dates.\<close>

lemma example_dates:
  "Format (utc 1640995200) = ''2022-01-01''"
  "Format (utc 1641081600) = ''2022-01-02''"
  "Format (utc 1641168000) = ''2022-01-03''"
  "Format (utc 1641200400) = ''2022-01-03''"
  "Format (utc 1641254400) = ''2022-01-04''"
  "Format (utc 1641340800) = ''2022-01-05''"
  "Format (utc 1672531199) = ''2022-12-31''"
  "Weekday (utc 1641200400) = Monday"
  by (simp_all add: date_eval)

subsection \<open>The matching pipeline\<close>

text \<open>The loop body on one record, and the whole loop.\<close>

lemma processPlace_eq:
  "processPlace DistanceHaversine startDate endDate officeLocation tolerance place (days, n)
   = (if outsideRange startDate endDate place then (days, n)
      else ((if DistanceHaversine officeLocation (Latitude place, Longitude place) \<le> tolerance
             then Add (Start place) days else days), n + 1))"
  by (simp add: processPlace_def outsideRange_def Before_def After_def Let_def)

lemma processPlaces_spec:
  "processPlaces DistanceHaversine startDate endDate officeLocation tolerance places (days, n)
   = (fold (\<lambda>place d.
              if DistanceHaversine officeLocation (Latitude place, Longitude place) \<le> tolerance
              then Add (Start place) d else d)
        (filter (\<lambda>place. \<not> outsideRange startDate endDate place) places) days,
      n + length (filter (\<lambda>place. \<not> outsideRange startDate endDate place) places))"
  by (induction places arbitrary: days n) (simp_all add: processPlace_eq)

text \<open>
  Claim C3. Over the records of a file, the loop of \<^verbatim>\<open>processFile\<close> treats exactly the records
  that are not outside the range: its result is the result on those records alone, in their
  order, and its counter grows by their number, so a record is skipped if and only if its
  end is before the start of the range or its start is after the end of the range. The pair
  of counts that \<^verbatim>\<open>processFile\<close> reports is the number of records and the number of records
  not outside the range. A record from 2022-01-01 to 2022-01-03 is counted for the range from
  2022-01-02 to 2022-01-02 and skipped for the range from 2022-01-04 to 2022-01-05.
\<close>

theorem pipeline_skips_exactly_outside_range:
  "processPlaces DistanceHaversine startDate endDate officeLocation tolerance places (days, n)
     = (fold (\<lambda>place d.
                if DistanceHaversine officeLocation (Latitude place, Longitude place) \<le> tolerance
                then Add (Start place) d else d)
          (filter (\<lambda>place. \<not> outsideRange startDate endDate place) places) days,
        n + length (filter (\<lambda>place. \<not> outsideRange startDate endDate place) places))
   \<and> processPlaces DistanceHaversine startDate endDate officeLocation tolerance places (days, n)
     = processPlaces DistanceHaversine startDate endDate officeLocation tolerance
         (filter (\<lambda>place. \<not> outsideRange startDate endDate place) places) (days, n)
   \<and> (OpenFile fileName = Inr input \<and> ParseTimelineInput ParseFloat input = Inr places
      \<longrightarrow> (\<exists>days'. processFile OpenFile ParseFloat DistanceHaversine fileName startDate endDate
                      officeLocation tolerance days
                    = Inr (days',
                        [FoundVisits fileName (length places)
                           (length (filter (\<lambda>place. \<not> outsideRange startDate endDate place)
                              places))])))
   \<and> snd (processPlaces DistanceHaversine (utc 1641081600) (utc 1641081600) officeLocation
          tolerance [place\<lparr>Start := utc 1640995200, End := utc 1641168000\<rparr>] (days, n)) = n + 1
   \<and> processPlaces DistanceHaversine (utc 1641254400) (utc 1641340800) officeLocation
          tolerance [place\<lparr>Start := utc 1640995200, End := utc 1641168000\<rparr>] (days, n) = (days, n)"
proof (intro conjI impI)
  show "processPlaces DistanceHaversine startDate endDate officeLocation tolerance places (days, n)
     = (fold (\<lambda>place d.
                if DistanceHaversine officeLocation (Latitude place, Longitude place) \<le> tolerance
                then Add (Start place) d else d)
          (filter (\<lambda>place. \<not> outsideRange startDate endDate place) places) days,
        n + length (filter (\<lambda>place. \<not> outsideRange startDate endDate place) places))"
    by (rule processPlaces_spec)
next
  show "processPlaces DistanceHaversine startDate endDate officeLocation tolerance places (days, n)
     = processPlaces DistanceHaversine startDate endDate officeLocation tolerance
         (filter (\<lambda>place. \<not> outsideRange startDate endDate place) places) (days, n)"
    by (simp add: processPlaces_spec)
next
  assume "OpenFile fileName = Inr input \<and> ParseTimelineInput ParseFloat input = Inr places"
  then show "\<exists>days'. processFile OpenFile ParseFloat DistanceHaversine fileName startDate endDate
                      officeLocation tolerance days
                    = Inr (days',
                        [FoundVisits fileName (length places)
                           (length (filter (\<lambda>place. \<not> outsideRange startDate endDate place)
                              places))])"
    by (simp add: processFile_def processPlaces_spec)
next
  show "snd (processPlaces DistanceHaversine (utc 1641081600) (utc 1641081600) officeLocation
          tolerance [place\<lparr>Start := utc 1640995200, End := utc 1641168000\<rparr>] (days, n)) = n + 1"
    by (simp add: processPlace_eq outsideRange_def utc_def)
next
  show "processPlaces DistanceHaversine (utc 1641254400) (utc 1641340800) officeLocation
          tolerance [place\<lparr>Start := utc 1640995200, End := utc 1641168000\<rparr>] (days, n) = (days, n)"
    by (simp add: processPlace_eq outsideRange_def utc_def)
qed

text \<open>
  Claim C3 on the file of two visits, for a range that begins after the first visit has
  ended and before the second has: two records found, one of them treated.
\<close>

theorem pipeline_skips_exactly_outside_range_witness:
  "outsideRange (utc 1641120000) (utc 1641340800) (visitPoint munichVisit)
   \<and> \<not> outsideRange (utc 1641120000) (utc 1641340800) (visitPoint visitOnEquator)
   \<and> (\<exists>days'. processFile exampleFiles decimalParseFloat gridDistance ''visits.json''
                  (utc 1641120000) (utc 1641340800) office 100 Map.empty
                = Inr (days', [FoundVisits ''visits.json'' 2 1]))"
proof -
  let ?places = "[visitPoint munichVisit, visitPoint visitOnEquator]"
  have o: "exampleFiles ''visits.json'' = Inr (Inr visitsDocument)"
    by (simp add: exampleFiles_def)
  have p: "ParseTimelineInput decimalParseFloat (Inr visitsDocument) = Inr ?places"
    by (simp add: ParseTimelineInput_def visitsDocument_def)
  have m: "outsideRange (utc 1641120000) (utc 1641340800) (visitPoint munichVisit)"
    by (simp add: outsideRange_def visitPoint_coordinates munichVisit_def utc_def)
  have e: "\<not> outsideRange (utc 1641120000) (utc 1641340800) (visitPoint visitOnEquator)"
    by (simp add: outsideRange_def visitPoint_coordinates visitOnEquator_def utc_def)
  have l: "length (filter (\<lambda>place. \<not> outsideRange (utc 1641120000) (utc 1641340800) place)
             ?places) = 1"
    using m e by simp
  have len: "length ?places = 2" by simp
  from pipeline_skips_exactly_outside_range
         [of gridDistance "utc 1641120000" "utc 1641340800" office 100 ?places Map.empty 0
             exampleFiles "''visits.json''" "Inr visitsDocument" decimalParseFloat] o p
  have "\<exists>days'. processFile exampleFiles decimalParseFloat gridDistance ''visits.json''
                  (utc 1641120000) (utc 1641340800) office 100 Map.empty
                = Inr (days',
                    [FoundVisits ''visits.json'' (length ?places)
                       (length (filter (\<lambda>place. \<not> outsideRange (utc 1641120000)
                          (utc 1641340800) place) ?places))])"
    by blast
  then have "\<exists>days'. processFile exampleFiles decimalParseFloat gridDistance ''visits.json''
                  (utc 1641120000) (utc 1641340800) office 100 Map.empty
                = Inr (days', [FoundVisits ''visits.json'' 2 1])"
    by (simp only: l len)
  with m e show ?thesis by blast
qed

subsection \<open>The distance the program compares\<close>

lemma pi_ge_three: "3 \<le> pi"
proof -
  have "sin (pi / 6) \<le> pi / 6" by (rule sin_x_le_x) simp
  then show ?thesis by (simp add: sin_30)
qed

lemma arctan_le_arg:
  fixes t :: real
  assumes "0 \<le> t"
  shows "arctan t \<le> t"
proof -
  have d: "\<exists>y. DERIV (\<lambda>u. u - arctan u) u :> y \<and> 0 \<le> y" for u :: real
  proof -
    have "DERIV (\<lambda>u. u - arctan u) u :> 1 - inverse (1 + u\<^sup>2)"
      by (rule DERIV_diff [OF DERIV_ident DERIV_arctan])
    moreover have "inverse (1 + u\<^sup>2) \<le> 1"
      by (simp add: inverse_le_1_iff)
    ultimately show ?thesis by (intro exI[of _ "1 - inverse (1 + u\<^sup>2)"]) simp
  qed
  have "0 - arctan 0 \<le> t - arctan t"
    by (rule DERIV_nonneg_imp_nondecreasing [of 0 t "\<lambda>u. u - arctan u", OF assms]) (rule d)
  then show ?thesis by simp
qed

lemma Atan2_sin_cos:
  assumes "0 < x" and "x < pi / 2"
  shows "Atan2 (sqrt (sin x * sin x)) (sqrt (1 - sin x * sin x)) = x"
proof -
  have s: "0 < sin x" using assms by (intro sin_gt_zero) (auto intro: order_less_trans)
  have c: "0 < cos x" using assms by (intro cos_gt_zero)
  have "sqrt (sin x * sin x) = sin x" using s by simp
  moreover have "1 - sin x * sin x = cos x * cos x"
    using sin_cos_squared_add[of x] by (simp add: power2_eq_square algebra_simps)
  then have "sqrt (1 - sin x * sin x) = cos x" using c by simp
  ultimately have "Atan2 (sqrt (sin x * sin x)) (sqrt (1 - sin x * sin x)) = arctan (sin x / cos x)"
    using c by (simp add: Atan2_def)
  also have "\<dots> = arctan (tan x)" by (simp add: tan_def)
  also have "\<dots> = x" using assms by (intro arctan_tan) auto
  finally show ?thesis .
qed

lemma Atan2_quarter:
  assumes "0 \<le> x"
  shows "Atan2 (sqrt (1 / 4 * sin x * sin x)) (sqrt (1 - 1 / 4 * sin x * sin x)) \<le> 2 * x / 3"
proof -
  let ?a = "1 / 4 * sin x * sin x"
  have abs: "\<bar>sin x\<bar> \<le> x"
    using sin_x_le_x[OF assms] sin_x_ge_neg_x[OF assms] by (simp add: abs_le_iff)
  have sq: "sin x * sin x \<le> 1"
    using abs_sin_le_one[of x] by (metis abs_mult_self_eq mult_mono' abs_ge_zero mult_1 real_sqrt_abs2 real_sqrt_le_iff real_sqrt_one)
  have "?a = (sin x / 2)\<^sup>2" by (simp add: power2_eq_square)
  then have num: "sqrt ?a = \<bar>sin x\<bar> / 2" by (simp add: real_sqrt_abs)
  have "(3 / 4 :: real)\<^sup>2 \<le> 1 - ?a" using sq by (simp add: power2_eq_square)
  then have den: "3 / 4 \<le> sqrt (1 - ?a)" by (rule real_le_rsqrt)
  then have pos: "0 < sqrt (1 - ?a)" by linarith
  have "Atan2 (sqrt ?a) (sqrt (1 - ?a)) = arctan (sqrt ?a / sqrt (1 - ?a))"
    using pos by (simp only: Atan2_def if_True)
  also have "\<dots> \<le> sqrt ?a / sqrt (1 - ?a)"
    using pos by (intro arctan_le_arg divide_nonneg_pos) simp_all
  also have "\<dots> \<le> (x / 2) / (3 / 4)"
    using abs den num by (intro frac_le) simp_all
  also have "\<dots> = 2 * x / 3" by simp
  finally show ?thesis .
qed

lemma distance_along_second:
  "geo_DistanceHaversine (60, 60) (60, 60.002) = EarthRadius * pi / 90000"
proof -
  have x: "0 < pi / 180000" "pi / 180000 < pi / 2" by simp_all
  have "geo_DistanceHaversine (60, 60) (60, 60.002)
        = 2 * EarthRadius * Atan2 (sqrt (sin (pi / 180000) * sin (pi / 180000)))
                                   (sqrt (1 - sin (pi / 180000) * sin (pi / 180000)))"
    by (simp add: geo_DistanceHaversine_def deg2rad_def Let_def)
  also have "\<dots> = 2 * EarthRadius * (pi / 180000)"
    by (simp only: Atan2_sin_cos[OF x])
  finally show ?thesis by simp
qed

lemma distance_along_first:
  "geo_DistanceHaversine (60, 60) (60.002, 60) \<le> EarthRadius * pi / 135000"
proof -
  have "geo_DistanceHaversine (60, 60) (60.002, 60)
        = 2 * EarthRadius * Atan2 (sqrt (1 / 4 * sin (pi / 180000) * sin (pi / 180000)))
                                   (sqrt (1 - 1 / 4 * sin (pi / 180000) * sin (pi / 180000)))"
    by (simp add: geo_DistanceHaversine_def deg2rad_def Let_def cos_60)
  also have "\<dots> \<le> 2 * EarthRadius * (2 * (pi / 180000) / 3)"
    by (intro mult_left_mono Atan2_quarter) (simp_all add: EarthRadius_def)
  also have "\<dots> = EarthRadius * pi / 135000" by simp
  finally show ?thesis .
qed

lemma called_east_gt: "200 < geo_DistanceHaversine (60, 60) (60, 60.002)"
  using pi_ge_three distance_along_second by (simp add: EarthRadius_def)

lemma called_north_le: "geo_DistanceHaversine (60, 60) (60.002, 60) \<le> 200"
  using distance_along_first pi_less_4 by (simp add: EarthRadius_def)

text \<open>
  Claim C4. The claim says that a record inside the range is inserted exactly when the
  haversine distance from its coordinate to the reference point is at most the tolerance.
  The program compares the tolerance with \<^verbatim>\<open>geo.DistanceHaversine\<close> of two points that it
  builds with the latitude at index 0 and the longitude at index 1, where the library reads
  them the other way round. With the reference point at (60, 60) and tolerance 200, the
  visit 0.002 degrees east is within the tolerance, and is counted but not inserted; the
  visit 0.002 degrees north is beyond it, and is inserted.
\<close>

theorem swapped_axes_decide_the_match:
  "haversineLatLon officeAt60
      (Latitude (visitPoint visitEast), Longitude (visitPoint visitEast)) \<le> 200
   \<and> processFile displacedFiles ParseFloat geo_DistanceHaversine ''east.json''
        (utc 1640995200) (utc 1672531199) officeAt60 200 Map.empty
      = Inr (Map.empty, [FoundVisits ''east.json'' 1 1])
   \<and> 200 < haversineLatLon officeAt60
              (Latitude (visitPoint visitNorth), Longitude (visitPoint visitNorth))
   \<and> processFile displacedFiles ParseFloat geo_DistanceHaversine ''north.json''
        (utc 1640995200) (utc 1672531199) officeAt60 200 Map.empty
      = Inr ([''2022-01-03'' \<mapsto> True], [FoundVisits ''north.json'' 1 1])"
proof -
  have east: "visitPoint visitEast
                = \<lparr>Latitude = 60, Longitude = 60.002,
                   Start = utc 1641200400, End = utc 1641229200\<rparr>"
    by (simp add: visitPoint_def visitEast_def)
  have north: "visitPoint visitNorth
                = \<lparr>Latitude = 60.002, Longitude = 60,
                    Start = utc 1641200400, End = utc 1641229200\<rparr>"
    by (simp add: visitPoint_def visitNorth_def)
  have 1: "haversineLatLon officeAt60
             (Latitude (visitPoint visitEast), Longitude (visitPoint visitEast)) \<le> 200"
    using called_north_le by (simp add: east haversineLatLon_def officeAt60_def)
  have 3: "200 < haversineLatLon officeAt60
             (Latitude (visitPoint visitNorth), Longitude (visitPoint visitNorth))"
    using called_east_gt by (simp add: north haversineLatLon_def officeAt60_def)
  have a: "Add (utc 1641200400) Map.empty = [''2022-01-03'' \<mapsto> True]"
    by (simp add: Add_def example_dates)
  have 2: "processFile displacedFiles ParseFloat geo_DistanceHaversine ''east.json''
        (utc 1640995200) (utc 1672531199) officeAt60 200 Map.empty
      = Inr (Map.empty, [FoundVisits ''east.json'' 1 1])"
    using called_east_gt
    by (simp add: processFile_def displacedFiles_def ParseTimelineInput_def east
          processPlace_eq outsideRange_def utc_def officeAt60_def)
  have 4: "processFile displacedFiles ParseFloat geo_DistanceHaversine ''north.json''
        (utc 1640995200) (utc 1672531199) officeAt60 200 Map.empty
      = Inr (Add (utc 1641200400) Map.empty, [FoundVisits ''north.json'' 1 1])"
    using called_north_le
    by (simp add: processFile_def displacedFiles_def ParseTimelineInput_def north
          processPlace_eq outsideRange_def utc_def officeAt60_def)
  from 4 have 5: "processFile displacedFiles ParseFloat geo_DistanceHaversine ''north.json''
        (utc 1640995200) (utc 1672531199) officeAt60 200 Map.empty
      = Inr ([''2022-01-03'' \<mapsto> True], [FoundVisits ''north.json'' 1 1])"
    by (simp only: a)
  from 1 2 3 5 show ?thesis by blast
qed

subsection \<open>Files that cannot be opened or decoded\<close>

lemma processFiles_append:
  "processFiles OpenFile ParseFloat DistanceHaversine startDate endDate officeLocation tolerance
     (xs @ ys) days
   = (case processFiles OpenFile ParseFloat DistanceHaversine startDate endDate officeLocation
             tolerance xs days of
        Inl panic \<Rightarrow> Inl panic
      | Inr days' \<Rightarrow>
          processFiles OpenFile ParseFloat DistanceHaversine startDate endDate officeLocation
            tolerance ys days')"
  by (induction xs arbitrary: days) (auto split: sum.splits)

lemma processFile_failed:
  assumes "OpenFile fileName = Inl err \<or> OpenFile fileName = Inr (Inl err)"
  shows "\<exists>logged. processFile OpenFile ParseFloat DistanceHaversine fileName startDate endDate
                    officeLocation tolerance days = Inr (days, logged)"
  using assms by (auto simp: processFile_def ParseTimelineInput_def)

text \<open>
  Claim C9. When a file cannot be opened, or is opened and cannot be decoded,
  \<^verbatim>\<open>processFile\<close> returns with the day set it was given, and the run over the file names
  gives what it gives without that file.
\<close>

theorem failed_file_contributes_nothing:
  assumes "OpenFile fileName = Inl err \<or> OpenFile fileName = Inr (Inl err)"
  shows "(\<exists>logged. processFile OpenFile ParseFloat DistanceHaversine fileName startDate endDate
                     officeLocation tolerance days = Inr (days, logged))
         \<and> processFiles OpenFile ParseFloat DistanceHaversine startDate endDate officeLocation
             tolerance (before @ fileName # rest) days
           = processFiles OpenFile ParseFloat DistanceHaversine startDate endDate officeLocation
               tolerance (before @ rest) days"
proof -
  have one: "\<And>d. \<exists>logged. processFile OpenFile ParseFloat DistanceHaversine fileName startDate
                 endDate officeLocation tolerance d = Inr (d, logged)"
    using assms by (rule processFile_failed)
  have step: "\<And>d. processFiles OpenFile ParseFloat DistanceHaversine startDate endDate
                 officeLocation tolerance (fileName # rest) d
               = processFiles OpenFile ParseFloat DistanceHaversine startDate endDate
                   officeLocation tolerance rest d"
  proof -
    fix d
    from one[of d] obtain logged where
      "processFile OpenFile ParseFloat DistanceHaversine fileName startDate endDate
         officeLocation tolerance d = Inr (d, logged)" by blast
    then show "processFiles OpenFile ParseFloat DistanceHaversine startDate endDate
                 officeLocation tolerance (fileName # rest) d
               = processFiles OpenFile ParseFloat DistanceHaversine startDate endDate
                   officeLocation tolerance rest d"
      by simp
  qed
  have "processFiles OpenFile ParseFloat DistanceHaversine startDate endDate officeLocation
             tolerance (before @ fileName # rest) days
           = processFiles OpenFile ParseFloat DistanceHaversine startDate endDate officeLocation
               tolerance (before @ rest) days"
    by (cases "processFiles OpenFile ParseFloat DistanceHaversine startDate endDate
                 officeLocation tolerance before days")
       (simp_all only: processFiles_append sum.case step)
  with one[of days] show ?thesis by blast
qed

text \<open>Claim C9 on the example directory.\<close>

theorem failed_file_contributes_nothing_witness:
  "processFile exampleFiles decimalParseFloat gridDistance ''missing.json''
       (utc 1640995200) (utc 1672531199) office 100 (Add (utc 1641200400) Map.empty)
     = Inr (Add (utc 1641200400) Map.empty,
            [CouldNotOpenFile ''missing.json'' ''no such file or directory'',
             CouldNotParseFile ''missing.json'' (DecodingJSON ''invalid argument''),
             FoundVisits ''missing.json'' 0 0])
   \<and> processFile exampleFiles decimalParseFloat gridDistance ''broken.json''
       (utc 1640995200) (utc 1672531199) office 100 (Add (utc 1641200400) Map.empty)
     = Inr (Add (utc 1641200400) Map.empty,
            [CouldNotParseFile ''broken.json'' (DecodingJSON ''unexpected end of JSON input''),
             FoundVisits ''broken.json'' 0 0])
   \<and> processFiles exampleFiles decimalParseFloat gridDistance
       (utc 1640995200) (utc 1672531199) office 100
       [''visits.json'', ''missing.json'', ''broken.json'', ''segments.json''] Map.empty
     = processFiles exampleFiles decimalParseFloat gridDistance
       (utc 1640995200) (utc 1672531199) office 100
       [''visits.json'', ''segments.json''] Map.empty"
proof -
  have m: "exampleFiles ''missing.json'' = Inl ''no such file or directory''
           \<or> exampleFiles ''missing.json'' = Inr (Inl ''no such file or directory'')"
    by (simp add: exampleFiles_def)
  have b: "exampleFiles ''broken.json'' = Inl ''unexpected end of JSON input''
           \<or> exampleFiles ''broken.json'' = Inr (Inl ''unexpected end of JSON input'')"
    by (simp add: exampleFiles_def)
  have 1: "processFiles exampleFiles decimalParseFloat gridDistance
       (utc 1640995200) (utc 1672531199) office 100
       ([''visits.json''] @ ''missing.json'' # [''broken.json'', ''segments.json'']) Map.empty
     = processFiles exampleFiles decimalParseFloat gridDistance
       (utc 1640995200) (utc 1672531199) office 100
       ([''visits.json''] @ [''broken.json'', ''segments.json'']) Map.empty"
    using failed_file_contributes_nothing
            [of exampleFiles "''missing.json''" "''no such file or directory''"
                decimalParseFloat gridDistance "utc 1640995200" "utc 1672531199" office 100
                Map.empty "[''visits.json'']" "[''broken.json'', ''segments.json'']"] m
    by blast
  have 2: "processFiles exampleFiles decimalParseFloat gridDistance
       (utc 1640995200) (utc 1672531199) office 100
       ([''visits.json''] @ ''broken.json'' # [''segments.json'']) Map.empty
     = processFiles exampleFiles decimalParseFloat gridDistance
       (utc 1640995200) (utc 1672531199) office 100
       ([''visits.json''] @ [''segments.json'']) Map.empty"
    using failed_file_contributes_nothing
            [of exampleFiles "''broken.json''" "''unexpected end of JSON input''"
                decimalParseFloat gridDistance "utc 1640995200" "utc 1672531199" office 100
                Map.empty "[''visits.json'']" "[''segments.json'']"] b
    by blast
  have 3: "processFile exampleFiles decimalParseFloat gridDistance ''missing.json''
       (utc 1640995200) (utc 1672531199) office 100 (Add (utc 1641200400) Map.empty)
     = Inr (Add (utc 1641200400) Map.empty,
            [CouldNotOpenFile ''missing.json'' ''no such file or directory'',
             CouldNotParseFile ''missing.json'' (DecodingJSON ''invalid argument''),
             FoundVisits ''missing.json'' 0 0])"
    by (simp add: processFile_def exampleFiles_def ParseTimelineInput_def)
  have 4: "processFile exampleFiles decimalParseFloat gridDistance ''broken.json''
       (utc 1640995200) (utc 1672531199) office 100 (Add (utc 1641200400) Map.empty)
     = Inr (Add (utc 1641200400) Map.empty,
            [CouldNotParseFile ''broken.json'' (DecodingJSON ''unexpected end of JSON input''),
             FoundVisits ''broken.json'' 0 0])"
    by (simp add: processFile_def exampleFiles_def ParseTimelineInput_def)
  from 1 2 3 4 show ?thesis by simp
qed

subsection \<open>Dates: a day string determines its day\<close>

text \<open>
  Every day number splits into its cycles; the split gives the date, and gives the day number
  back.
\<close>

lemma civil_decompose:
  obtains era c q a doy mp where
    "n = 146097 * era + 36524 * c + 1461 * q + 365 * a + doy - 719468"
    "0 \<le> c" "c \<le> 3" "0 \<le> q" "q \<le> 24" "0 \<le> a" "a \<le> 3"
    "0 \<le> doy" "doy \<le> 365" "0 \<le> mp" "mp \<le> 11"
    "153 * mp \<le> 5 * doy + 2" "5 * doy + 2 < 153 * mp + 153"
    "civil n = (400 * era + 100 * c + 4 * q + a + (if mp < 10 then 0 else 1),
                (if mp < 10 then mp + 3 else mp - 9),
                doy - (153 * mp + 2) div 5 + 1)"
proof -
  define z where "z = n + 719468"
  define era where "era = z div 146097"
  define doe where "doe = z mod 146097"
  define c where "c = min 3 (doe div 36524)"
  define d1 where "d1 = doe - 36524 * c"
  define q where "q = d1 div 1461"
  define d2 where "d2 = d1 - 1461 * q"
  define a where "a = min 3 (d2 div 365)"
  define doy where "doy = d2 - 365 * a"
  define mp where "mp = (5 * doy + 2) div 153"
  have doe: "0 \<le> doe" "doe \<le> 146096" by (simp_all add: doe_def)
  have z: "z = 146097 * era + doe" by (simp add: era_def doe_def)
  have c: "0 \<le> c" "c \<le> 3" using doe by (simp_all add: c_def)
  have d1: "0 \<le> d1" "d1 \<le> 36524" using doe unfolding d1_def c_def by linarith+
  have q: "0 \<le> q" "q \<le> 24" using d1 unfolding q_def by linarith+
  have d2: "0 \<le> d2" "d2 \<le> 1460" using d1 unfolding d2_def q_def by linarith+
  have a: "0 \<le> a" "a \<le> 3" using d2 by (simp_all add: a_def)
  have doy: "0 \<le> doy" "doy \<le> 365" using d2 unfolding doy_def a_def by linarith+
  have mp: "0 \<le> mp" "mp \<le> 11" using doy unfolding mp_def by linarith+
  have mp2: "153 * mp \<le> 5 * doy + 2" "5 * doy + 2 < 153 * mp + 153"
    unfolding mp_def by linarith+
  have n: "n = 146097 * era + 36524 * c + 1461 * q + 365 * a + doy - 719468"
    using z by (simp add: z_def d1_def d2_def doy_def)
  have civ: "civil n = (400 * era + 100 * c + 4 * q + a + (if mp < 10 then 0 else 1),
                (if mp < 10 then mp + 3 else mp - 9),
                doy - (153 * mp + 2) div 5 + 1)"
    unfolding civil_def Let_def
    unfolding z_def[symmetric] era_def[symmetric] doe_def[symmetric] c_def[symmetric]
      d1_def[symmetric] q_def[symmetric] d2_def[symmetric] a_def[symmetric] doy_def[symmetric]
      mp_def[symmetric]
    using mp by auto
  show ?thesis
    using that[OF n c q a doy mp mp2 civ] .
qed


lemma civil_inj:
  assumes "civil n1 = civil n2"
  shows "n1 = n2"
proof -
  obtain era1 c1 q1 a1 doy1 mp1 where 1:
    "n1 = 146097 * era1 + 36524 * c1 + 1461 * q1 + 365 * a1 + doy1 - 719468"
    "0 \<le> c1" "c1 \<le> 3" "0 \<le> q1" "q1 \<le> 24" "0 \<le> a1" "a1 \<le> 3"
    "0 \<le> doy1" "doy1 \<le> 365" "0 \<le> mp1" "mp1 \<le> 11"
    "153 * mp1 \<le> 5 * doy1 + 2" "5 * doy1 + 2 < 153 * mp1 + 153"
    "civil n1 = (400 * era1 + 100 * c1 + 4 * q1 + a1 + (if mp1 < 10 then 0 else 1),
                (if mp1 < 10 then mp1 + 3 else mp1 - 9),
                doy1 - (153 * mp1 + 2) div 5 + 1)"
    by (rule civil_decompose)
  obtain era2 c2 q2 a2 doy2 mp2 where 2:
    "n2 = 146097 * era2 + 36524 * c2 + 1461 * q2 + 365 * a2 + doy2 - 719468"
    "0 \<le> c2" "c2 \<le> 3" "0 \<le> q2" "q2 \<le> 24" "0 \<le> a2" "a2 \<le> 3"
    "0 \<le> doy2" "doy2 \<le> 365" "0 \<le> mp2" "mp2 \<le> 11"
    "153 * mp2 \<le> 5 * doy2 + 2" "5 * doy2 + 2 < 153 * mp2 + 153"
    "civil n2 = (400 * era2 + 100 * c2 + 4 * q2 + a2 + (if mp2 < 10 then 0 else 1),
                (if mp2 < 10 then mp2 + 3 else mp2 - 9),
                doy2 - (153 * mp2 + 2) div 5 + 1)"
    by (rule civil_decompose)
  from assms 1(14) 2(14) have
    y: "400 * era1 + 100 * c1 + 4 * q1 + a1 + (if mp1 < 10 then 0 else 1)
        = 400 * era2 + 100 * c2 + 4 * q2 + a2 + (if mp2 < 10 then 0 else 1)"
    and m: "(if mp1 < 10 then mp1 + 3 else mp1 - 9) = (if mp2 < 10 then mp2 + 3 else mp2 - 9)"
    and d: "doy1 - (153 * mp1 + 2) div 5 + 1 = doy2 - (153 * mp2 + 2) div 5 + 1"
    by simp_all
  have mp: "mp1 = mp2"
    using m 1(10,11) 2(10,11) by (auto split: if_splits)
  have doy: "doy1 = doy2" using d mp by simp
  have y': "400 * era1 + (100 * c1 + 4 * q1 + a1) = 400 * era2 + (100 * c2 + 4 * q2 + a2)"
    using y mp by simp
  have era: "era1 = era2"
    using y' 1(2-7) 2(2-7) by linarith
  have c: "c1 = c2"
    using y' era 1(2-7) 2(2-7) by linarith
  have q: "q1 = q2"
    using y' era c 1(2-7) 2(2-7) by linarith
  have a: "a1 = a2"
    using y' era c q by linarith
  show ?thesis using 1(1) 2(1) era c q a doy by simp
qed

lemma civil_range:
  assumes "civil n = (y, m, d)"
  shows "1 \<le> m \<and> m \<le> 12 \<and> 1 \<le> d \<and> d \<le> 31"
proof -
  obtain era c q a doy mp where 1:
    "0 \<le> mp" "mp \<le> 11"
    "153 * mp \<le> 5 * doy + 2" "5 * doy + 2 < 153 * mp + 153"
    "civil n = (400 * era + 100 * c + 4 * q + a + (if mp < 10 then 0 else 1),
                (if mp < 10 then mp + 3 else mp - 9),
                doy - (153 * mp + 2) div 5 + 1)"
    using civil_decompose[of n] by metis
  from assms 1(5) have m: "m = (if mp < 10 then mp + 3 else mp - 9)"
    and d: "d = doy - (153 * mp + 2) div 5 + 1" by simp_all
  have "1 \<le> m" "m \<le> 12" using m 1(1,2) by (auto split: if_splits)
  moreover have "1 \<le> d" "d \<le> 31" using d 1(3,4) by linarith+
  ultimately show ?thesis by simp
qed

text \<open>\<^verbatim>\<open>appendInt\<close> is injective: the digits give the magnitude back, the sign is the first byte.\<close>

lemma digitsValue_snoc: "digitsValue (s @ [c]) = 10 * digitsValue s + (of_char c - 48)"
  by (simp add: digitsValue_def)

lemma of_char_digit: "k < 10 \<Longrightarrow> of_char (char_of (48 + k :: nat)) = 48 + k"
  by simp

lemma digitsValue_digits: "digitsValue (digits n) = n"
proof (induction n rule: digits.induct)
  case (1 n)
  show ?case
  proof (cases "n < 10")
    case True
    then show ?thesis
      by (subst digits.simps) (simp add: digitsValue_def)
  next
    case False
    then have "digitsValue (digits (n div 10)) = n div 10" using 1 by simp
    with False show ?thesis
      by (subst digits.simps) (simp add: digitsValue_snoc)
  qed
qed

lemma digitsValue_zeros: "digitsValue (replicate k (CHR ''0'') @ s) = digitsValue s"
proof -
  have "foldl (\<lambda>acc c. 10 * acc + (of_char c - 48)) 0 (replicate k (CHR ''0'')) = (0::nat)"
  proof (induction k)
    case 0
    show ?case by simp
  next
    case (Suc k)
    have "replicate (Suc k) (CHR ''0'') = replicate k (CHR ''0'') @ [CHR ''0'']"
      by (simp add: replicate_append_same)
    then show ?case using Suc by (simp only: foldl_append) simp
  qed
  then show ?thesis by (simp add: digitsValue_def)
qed

lemma digits_nonempty: "digits n \<noteq> []"
  by (subst digits.simps) simp

lemma digits_no_minus: "CHR ''-'' \<notin> set (digits n)"
proof (induction n rule: digits.induct)
  case (1 n)
  have neq: "\<And>k::nat. k < 10 \<Longrightarrow> char_of (48 + k) \<noteq> CHR ''-''"
  proof
    fix k :: nat assume k: "k < 10" and "char_of (48 + k) = CHR ''-''"
    then have "(of_char (char_of (48 + k)) :: nat) = of_char (CHR ''-'')" by simp
    with k show False by simp
  qed
  show ?case
  proof (cases "n < 10")
    case True
    then show ?thesis using neq[of n] by (subst digits.simps) simp
  next
    case False
    then show ?thesis using 1 neq[of "n mod 10"] by (subst digits.simps) simp
  qed
qed

lemma padded_no_minus: "hd (replicate k (CHR ''0'') @ digits n) \<noteq> CHR ''-''"
proof (cases k)
  case 0
  then show ?thesis using digits_no_minus[of n] digits_nonempty[of n]
    by (cases "digits n") auto
next
  case (Suc j)
  then show ?thesis by simp
qed

lemma appendInt_inj:
  assumes "appendInt x w = appendInt y w"
  shows "x = y"
proof -
  let ?px = "replicate (w - length (digits (nat \<bar>x\<bar>))) (CHR ''0'') @ digits (nat \<bar>x\<bar>)"
  let ?py = "replicate (w - length (digits (nat \<bar>y\<bar>))) (CHR ''0'') @ digits (nat \<bar>y\<bar>)"
  have ax: "appendInt x w = (if x < 0 then CHR ''-'' # ?px else ?px)"
    by (simp add: appendInt_def Let_def)
  have ay: "appendInt y w = (if y < 0 then CHR ''-'' # ?py else ?py)"
    by (simp add: appendInt_def Let_def)
  have nex: "?px \<noteq> []" and ney: "?py \<noteq> []" using digits_nonempty by simp_all
  have hx: "hd ?px \<noteq> CHR ''-''" and hy: "hd ?py \<noteq> CHR ''-''" by (rule padded_no_minus)+
  have sign: "(x < 0) = (y < 0)"
  proof (rule ccontr)
    assume "(x < 0) \<noteq> (y < 0)"
    then consider "x < 0" "\<not> y < 0" | "\<not> x < 0" "y < 0" by blast
    then show False
    proof cases
      case 1
      with assms ax ay have "CHR ''-'' # ?px = ?py" by simp
      then have "hd ?py = CHR ''-''" by (metis list.sel(1))
      with hy show False by simp
    next
      case 2
      with assms ax ay have "?px = CHR ''-'' # ?py" by simp
      then have "hd ?px = CHR ''-''" by (metis list.sel(1))
      with hx show False by simp
    qed
  qed
  have "?px = ?py" using assms ax ay sign by (simp split: if_splits)
  then have "digitsValue ?px = digitsValue ?py" by simp
  then have "nat \<bar>x\<bar> = nat \<bar>y\<bar>" by (simp only: digitsValue_zeros digitsValue_digits)
  with sign show ?thesis by linarith
qed

lemma length_digits_two: "n < 100 \<Longrightarrow> length (digits n) \<le> 2"
  by (subst digits.simps, subst digits.simps) simp

lemma length_appendInt_two:
  assumes "0 \<le> x" "x < 100"
  shows "length (appendInt x 2) = 2"
proof -
  have "length (digits (nat \<bar>x\<bar>)) \<le> 2" using assms by (intro length_digits_two) simp
  then show ?thesis using assms by (simp add: appendInt_def Let_def)
qed

lemma formatDate_inj:
  assumes "formatDate (y1, m1, d1) = formatDate (y2, m2, d2)"
    and "0 \<le> m1" "m1 < 100" "0 \<le> d1" "d1 < 100"
    and "0 \<le> m2" "m2 < 100" "0 \<le> d2" "d2 < 100"
  shows "(y1, m1, d1) = (y2, m2, d2)"
proof -
  have l: "length (appendInt m1 2) = 2" "length (appendInt d1 2) = 2"
          "length (appendInt m2 2) = 2" "length (appendInt d2 2) = 2"
    using assms(2-9) by (simp_all add: length_appendInt_two)
  from assms(1) have e:
    "appendInt y1 4 @ (''-'' @ appendInt m1 2 @ ''-'' @ appendInt d1 2)
     = appendInt y2 4 @ (''-'' @ appendInt m2 2 @ ''-'' @ appendInt d2 2)"
    by (simp add: formatDate_def)
  have "appendInt y1 4 = appendInt y2 4
        \<and> ''-'' @ appendInt m1 2 @ ''-'' @ appendInt d1 2
          = ''-'' @ appendInt m2 2 @ ''-'' @ appendInt d2 2"
    using e l by (subst (asm) append_eq_append_conv) simp_all
  then have y: "appendInt y1 4 = appendInt y2 4"
    and md: "appendInt m1 2 @ (''-'' @ appendInt d1 2) = appendInt m2 2 @ (''-'' @ appendInt d2 2)"
    by simp_all
  from md l have "appendInt m1 2 = appendInt m2 2 \<and> appendInt d1 2 = appendInt d2 2"
    by (subst (asm) append_eq_append_conv) simp_all
  with y show ?thesis using appendInt_inj by blast
qed

lemma formatDate_civil_inj:
  assumes "formatDate (civil n1) = formatDate (civil n2)"
  shows "n1 = n2"
proof -
  obtain y1 m1 d1 where c1: "civil n1 = (y1, m1, d1)" by (cases "civil n1") auto
  obtain y2 m2 d2 where c2: "civil n2 = (y2, m2, d2)" by (cases "civil n2") auto
  have r1: "1 \<le> m1 \<and> m1 \<le> 12 \<and> 1 \<le> d1 \<and> d1 \<le> 31" using c1 by (rule civil_range)
  have r2: "1 \<le> m2 \<and> m2 \<le> 12 \<and> 1 \<le> d2 \<and> d2 \<le> 31" using c2 by (rule civil_range)
  have "(y1, m1, d1) = (y2, m2, d2)"
    using assms r1 r2 unfolding c1 c2 by (intro formatDate_inj) simp_all
  then show ?thesis using c1 c2 civil_inj by simp
qed

lemma Format_eq_localDay: "Format t = Format u \<Longrightarrow> localDay t = localDay u"
  unfolding Format_def by (rule formatDate_civil_inj)

lemma Format_eq_Weekday: "Format t = Format u \<Longrightarrow> Weekday t = Weekday u"
  using Format_eq_localDay [of t u] by (simp add: Weekday_def)

subsection \<open>The day set\<close>

lemma inserted_snoc: "inserted (ts @ [t]) = Add t (inserted ts)"
  by (simp add: inserted_def)

lemma inserted_entries:
  "inserted ts date = Some b \<Longrightarrow>
   \<exists>t. date = Format t \<and> b = (Weekday t \<noteq> Saturday \<and> Weekday t \<noteq> Sunday)"
proof (induction ts arbitrary: date b rule: rev_induct)
  case Nil
  then show ?case by (simp add: inserted_def)
next
  case (snoc t ts)
  then show ?case by (auto simp: inserted_snoc Add_def split: if_splits)
qed

lemma Add_present:
  assumes "Format t \<in> dom (inserted ts)"
  shows "Add t (inserted ts) = inserted ts"
proof -
  from assms obtain b where b: "inserted ts (Format t) = Some b" by blast
  from inserted_entries[OF b] obtain u where
    u: "Format t = Format u" "b = (Weekday u \<noteq> Saturday \<and> Weekday u \<noteq> Sunday)" by blast
  have "Weekday t = Weekday u" using u(1) by (rule Format_eq_Weekday)
  with u(2) b have
    "inserted ts (Format t) = Some (Weekday t \<noteq> Saturday \<and> Weekday t \<noteq> Sunday)"
    by simp
  then show ?thesis unfolding Add_def by (rule map_upd_triv)
qed

lemma Add_twice: "Add t (Add t d) = Add t d"
  by (simp add: Add_def)

text \<open>
  Claim C8. In the day set the program holds after any sequence of insertions, inserting a
  timestamp whose day string is already a key, any number of times, leaves the day set as
  it is, and with it \<^verbatim>\<open>len\<close> and \<^verbatim>\<open>CountWorkingDays\<close>. In any day set, insertions of a
  timestamp after its first insertion change nothing.
\<close>

theorem insertion_idempotent:
  assumes "Format t \<in> dom (inserted ts)"
  shows "(Add t ^^ n) (inserted ts) = inserted ts
         \<and> len ((Add t ^^ n) (inserted ts)) = len (inserted ts)
         \<and> CountWorkingDays ((Add t ^^ n) (inserted ts)) = CountWorkingDays (inserted ts)
         \<and> (Add t ^^ n) (Add t d0) = Add t d0
         \<and> len ((Add t ^^ n) (Add t d0)) = len (Add t d0)
         \<and> CountWorkingDays ((Add t ^^ n) (Add t d0)) = CountWorkingDays (Add t d0)"
proof -
  have 1: "(Add t ^^ n) (inserted ts) = inserted ts"
    by (induction n) (simp_all add: Add_present[OF assms])
  have 2: "(Add t ^^ n) (Add t d0) = Add t d0"
    by (induction n) (simp_all add: Add_twice)
  show ?thesis by (simp only: 1 2)
qed

text \<open>
  Claim C8 on a day set holding Monday 2022-01-03, inserted at 09:00 UTC, and a timestamp of
  the same day, 23:00 at offset +01:00, inserted three times.
\<close>

theorem insertion_idempotent_witness:
  "inserted [utc 1641200400] = [''2022-01-03'' \<mapsto> True]
   \<and> Format lateMonday \<in> dom (inserted [utc 1641200400])
   \<and> (Add lateMonday ^^ 3) (inserted [utc 1641200400]) = inserted [utc 1641200400]
   \<and> len ((Add lateMonday ^^ 3) (inserted [utc 1641200400])) = 1
   \<and> CountWorkingDays ((Add lateMonday ^^ 3) (inserted [utc 1641200400])) = 1"
proof -
  let ?d = "inserted [utc 1641200400]"
  have f: "Format lateMonday = ''2022-01-03''"
    by (simp add: lateMonday_def date_eval)
  have d: "?d = [''2022-01-03'' \<mapsto> True]"
    by (simp add: inserted_def Add_def example_dates)
  have m: "Format lateMonday \<in> dom ?d" by (simp add: f d)
  have l: "len ?d = 1" by (simp add: d len_def)
  have "{date. [''2022-01-03'' \<mapsto> True] date = Some True} = {''2022-01-03''}"
    by (auto split: if_splits)
  then have c: "CountWorkingDays ?d = 1" by (simp add: d CountWorkingDays_def)
  from insertion_idempotent [OF m, of 3 Map.empty] have
    "(Add lateMonday ^^ 3) ?d = ?d"
    "len ((Add lateMonday ^^ 3) ?d) = len ?d"
    "CountWorkingDays ((Add lateMonday ^^ 3) ?d) = CountWorkingDays ?d"
    by blast+
  with d m l c show ?thesis by simp
qed

text \<open>
  Claim C7, as amended. \<^verbatim>\<open>Add\<close> takes the date and the working-day flag from the day the
  timestamp shows at the offset it carries: the instant in seconds plus the offset, divided
  by the seconds of a day. Two timestamps with the same such day are inserted alike. The
  time zone of the process plays no part.
\<close>

theorem Add_uses_carried_offset:
  "Add t d
     = d(formatDate (civil ((instant t div 1000000000 + zone t) div 86400)) \<mapsto>
           (weekdayOfDay ((instant t div 1000000000 + zone t) div 86400) \<noteq> Saturday
            \<and> weekdayOfDay ((instant t div 1000000000 + zone t) div 86400) \<noteq> Sunday))
   \<and> ((instant t div 1000000000 + zone t) div 86400
        = (instant u div 1000000000 + zone u) div 86400
      \<longrightarrow> Add t d = Add u d)"
  by (simp add: Add_def Format_def Weekday_def localDay_def)

text \<open>
  Claim C7, as amended, on the Monday timestamps: different instants and offsets, the same
  day.
\<close>

theorem Add_uses_carried_offset_witness:
  "(instant lateMonday div 1000000000 + zone lateMonday) div 86400
     = (instant (utc 1641200400) div 1000000000 + zone (utc 1641200400)) div 86400
   \<and> instant lateMonday \<noteq> instant (utc 1641200400)
   \<and> zone lateMonday \<noteq> zone (utc 1641200400)
   \<and> Add lateMonday Map.empty = Add (utc 1641200400) Map.empty"
proof -
  have e: "(instant lateMonday div 1000000000 + zone lateMonday) div 86400
     = (instant (utc 1641200400) div 1000000000 + zone (utc 1641200400)) div 86400"
    by (simp add: lateMonday_def utc_def)
  have i: "instant lateMonday \<noteq> instant (utc 1641200400)"
    by (simp add: lateMonday_def utc_def)
  have z: "zone lateMonday \<noteq> zone (utc 1641200400)"
    by (simp add: lateMonday_def utc_def)
  from Add_uses_carried_offset [of lateMonday Map.empty "utc 1641200400"] e
  have "Add lateMonday Map.empty = Add (utc 1641200400) Map.empty" by blast
  with e i z show ?thesis by blast
qed

text \<open>
  Claim C7 as stated fails. The two timestamps below are one instant, 2022-01-07 23:30 at
  offset 0 and 2022-01-08 00:30 at offset +01:00. Read in the time zone of the process,
  whichever it is, they would give the same date and flag. \<^verbatim>\<open>Add\<close> gives Friday 2022-01-07,
  a working day, for the first and Saturday 2022-01-08, not a working day, for the second.
\<close>

theorem Add_depends_on_carried_offset:
  "instant fridayNight = instant saturdayMorning
   \<and> Add fridayNight Map.empty = [''2022-01-07'' \<mapsto> True]
   \<and> Add saturdayMorning Map.empty = [''2022-01-08'' \<mapsto> False]
   \<and> Add fridayNight Map.empty \<noteq> Add saturdayMorning Map.empty"
proof -
  have 1: "Add fridayNight Map.empty = [''2022-01-07'' \<mapsto> True]"
    by (simp add: Add_def fridayNight_def date_eval)
  have 2: "Add saturdayMorning Map.empty = [''2022-01-08'' \<mapsto> False]"
    by (simp add: Add_def saturdayMorning_def date_eval)
  have 3: "[''2022-01-07'' \<mapsto> True] \<noteq> [''2022-01-08'' \<mapsto> False]"
  proof
    assume "[''2022-01-07'' \<mapsto> True] = [''2022-01-08'' \<mapsto> False]"
    then have "[''2022-01-07'' \<mapsto> True] ''2022-01-07'' = [''2022-01-08'' \<mapsto> False] ''2022-01-07''"
      by (rule fun_cong)
    then show False by simp
  qed
  show ?thesis using 1 2 3 by (simp add: fridayNight_def saturdayMorning_def)
qed

end
